theory Spec2Isabelle
  imports Complex_Main "HOL-Library.Word"
begin

section \<open>Stochastic-gradient MCMC samplers of \<^verbatim>\<open>zhusuan/sgmcmc.py\<close>\<close>

text \<open>
  The module builds TensorFlow graphs. The embedding gives every graph operation the
  value it computes when the graph is run: a tensor is its shape and its entries, a
  variable is the tensor it currently holds, and running the grouped update operation takes
  the variables before the run, with the random draws and the order in which the executor
  takes the operations of the latents, to the variables after it. Tensor entries are
  real numbers; the rounding of \<^verbatim>\<open>float32\<close> and its non-finite values are not part
  of the embedding. Two operations of the module leave the real numbers in TensorFlow:
  \<^verbatim>\<open>tf.sqrt\<close> of a negative number and \<^verbatim>\<open>tf.reduce_mean\<close> of a tensor without
  entries are NaN, where \<open>sqrt\<close> and the division by 0 of HOL have a value. The
  theorems on the update rules are therefore stated for variances that are not negative,
  and speak of a mean only where there is an entry. The random generator and the
  log-joint's derivatives are the two external collaborators; both enter as parameters.
\<close>

subsection \<open>Tensors\<close>

text \<open>
  A tensor of rank 0 is \<open>Scalar\<close>; a tensor of rank at least 1 carries its shape and
  its entries in row-major order.
\<close>

datatype tensor = Scalar real | Array "nat list" "real list"

fun shape :: "tensor \<Rightarrow> nat list" where
  "shape (Scalar x) = []"
| "shape (Array s d) = s"

fun elems :: "tensor \<Rightarrow> real list" where
  "elems (Scalar x) = [x]"
| "elems (Array s d) = d"

fun wf_tensor :: "tensor \<Rightarrow> bool" where
  "wf_tensor (Scalar x) = True"
| "wf_tensor (Array s d) = (s \<noteq> [] \<and> length d = prod_list s)"

fun ew1 :: "(real \<Rightarrow> real) \<Rightarrow> tensor \<Rightarrow> tensor" where
  "ew1 f (Scalar x) = Scalar (f x)"
| "ew1 f (Array s d) = Array s (map f d)"

text \<open>
  Binary elementwise operations broadcast a scalar operand. The last equation is the case
  of two operands of one shape, the only case of two arrays that the samplers produce
  (lemma \<open>run_sample_aligned\<close> below): the hyperparameters are scalars, and a velocity, a
  gradient and a noise tensor are created with the shape of their latent.
\<close>

fun ew2 :: "(real \<Rightarrow> real \<Rightarrow> real) \<Rightarrow> tensor \<Rightarrow> tensor \<Rightarrow> tensor" where
  "ew2 f (Scalar x) (Scalar y) = Scalar (f x y)"
| "ew2 f (Scalar x) (Array s d) = Array s (map (f x) d)"
| "ew2 f (Array s d) (Scalar y) = Array s (map (\<lambda>a. f a y) d)"
| "ew2 f (Array s d) (Array s' d') = Array s (map2 f d d')"

definition tf_add :: "tensor \<Rightarrow> tensor \<Rightarrow> tensor" where
  "tf_add = ew2 (+)"

definition tf_sub :: "tensor \<Rightarrow> tensor \<Rightarrow> tensor" where
  "tf_sub = ew2 (-)"

definition tf_mul :: "tensor \<Rightarrow> tensor \<Rightarrow> tensor" where
  "tf_mul = ew2 (*)"

definition tf_sqrt :: "tensor \<Rightarrow> tensor" where
  "tf_sqrt = ew1 sqrt"

definition tf_square :: "tensor \<Rightarrow> tensor" where
  \<comment> \<open>\<^verbatim>\<open>x**2\<close>\<close>
  "tf_square = ew1 (\<lambda>x. x ^ 2)"

definition zeros_like :: "tensor \<Rightarrow> tensor" where
  "zeros_like = ew1 (\<lambda>x. 0)"

definition reduce_mean :: "tensor \<Rightarrow> tensor" where
  "reduce_mean x = Scalar (sum_list (elems x) / real (length (elems x)))"

text \<open>
  \<^verbatim>\<open>tf.random_normal(shape, stddev=s)\<close> draws a standard normal tensor of the given
  shape, multiplies it by \<open>s\<close> and adds the mean, \<open>0.0\<close> by default. The draws of one
  random operation in one run are the stream \<open>z\<close>.
\<close>

fun random_standard_normal :: "(nat \<Rightarrow> real) \<Rightarrow> nat list \<Rightarrow> tensor" where
  "random_standard_normal z [] = Scalar (z 0)"
| "random_standard_normal z (n # ns) = Array (n # ns) (map z [0..<prod_list (n # ns)])"

definition random_normal :: "(nat \<Rightarrow> real) \<Rightarrow> nat list \<Rightarrow> tensor \<Rightarrow> tensor" where
  "random_normal z shp stddev =
     tf_add (tf_mul (random_standard_normal z shp) stddev) (Scalar 0)"

text \<open>
  \<^verbatim>\<open>tf.gradients(log_joint, var_list)\<close> returns one tensor per variable, of that
  variable's shape. The partial derivatives come from the log-joint, which is external:
  \<open>dl qs i j\<close> is the derivative with respect to entry \<open>j\<close> of latent \<open>i\<close> at the joint
  state \<open>qs\<close>. The log-joint is taken to depend on every latent, so that every gradient
  is a tensor.
\<close>

type_synonym log_joint_grad = "tensor list \<Rightarrow> nat \<Rightarrow> nat \<Rightarrow> real"

fun tensor_like :: "tensor \<Rightarrow> (nat \<Rightarrow> real) \<Rightarrow> tensor" where
  "tensor_like (Scalar x) f = Scalar (f 0)"
| "tensor_like (Array s d) f = Array s (map f [0..<length d])"

definition tf_gradients :: "log_joint_grad \<Rightarrow> tensor list \<Rightarrow> tensor list" where
  "tf_gradients dl qs = map (\<lambda>(i, q). tensor_like q (dl qs i)) (zip [0..<length qs] qs)"

subsection \<open>The step counter's arithmetic\<close>

text \<open>
  The counter and the resample interval are \<^verbatim>\<open>int32\<close> tensors. \<^verbatim>\<open>tf.mod\<close> is the
  floored modulus, whose sign follows the divisor as that of \<open>mod\<close> on \<open>int\<close> does; on
  integers a zero divisor makes the kernel fail with \<^verbatim>\<open>InvalidArgumentError\<close>.
\<close>

datatype py_exc =
    NotImplementedError
  | TypeError string
  | ValueError string
  | IndexError string
  | InvalidArgumentError string

definition tf_mod :: "32 word \<Rightarrow> 32 word \<Rightarrow> py_exc + 32 word" where
  "tf_mod x y =
     (if y = 0 then Inl (InvalidArgumentError ''Integer division by zero'')
      else Inr (word_of_int (sint x mod sint y)))"

subsection \<open>The sampler object and \<^verbatim>\<open>sample\<close>\<close>

text \<open>
  The concrete classes with their hyperparameters, converted to scalar tensors by the
  constructors. A sampler of the base class itself has no algorithm.
\<close>

datatype algorithm =
    SGLD real
  | SGHMC real real real "32 word"
  | SGNHT real real real

datatype latent_val = Variable tensor | NotVariable

datatype model = LogJointFn | MetaModel

record sampler =
  cls :: "algorithm option"
  self_t :: "32 word"
  self_meta_model :: "model option"
  self_observed :: "(string \<times> tensor) list option"
  self_latent :: "(string \<times> latent_val) list option"
  self_vs :: "tensor list option"
  self_xis :: "tensor list option"

definition SGMCMC_init :: sampler where
  "SGMCMC_init = \<lparr>cls = None, self_t = - 1, self_meta_model = None, self_observed = None,
     self_latent = None, self_vs = None, self_xis = None\<rparr>"

definition SGLD_init :: "real \<Rightarrow> sampler" where
  "SGLD_init learning_rate = SGMCMC_init\<lparr>cls := Some (SGLD learning_rate)\<rparr>"

definition SGHMC_init :: "real \<Rightarrow> real \<Rightarrow> real \<Rightarrow> 32 word option \<Rightarrow> sampler" where
  "SGHMC_init learning_rate friction variance_estimate n_iter_resample_v =
     (let n = (case n_iter_resample_v of None \<Rightarrow> 0 | Some k \<Rightarrow> k)
      in SGMCMC_init\<lparr>cls := Some (SGHMC learning_rate friction variance_estimate n)\<rparr>)"

definition SGNHT_init :: "real \<Rightarrow> real \<Rightarrow> real \<Rightarrow> sampler" where
  "SGNHT_init learning_rate variance_extra tune_rate =
     SGMCMC_init\<lparr>cls := Some (SGNHT learning_rate variance_extra tune_rate)\<rparr>"

text \<open>
  The hooks of the base class: both \<^verbatim>\<open>return NotImplementedError()\<close>, so a call ends
  normally and its value is an exception object.
\<close>

datatype 'a returned = Value 'a | ExcObject py_exc

definition SGMCMC_update :: "tensor list \<Rightarrow> py_exc + unit returned" where
  "SGMCMC_update qs = Inr (ExcObject NotImplementedError)"

definition SGMCMC_define_variables :: "sampler \<Rightarrow> tensor list \<Rightarrow> sampler \<times> (py_exc + unit returned)" where
  "SGMCMC_define_variables s qs = (s, Inr (ExcObject NotImplementedError))"

definition SGLD_define_variables :: "sampler \<Rightarrow> tensor list \<Rightarrow> sampler" where
  "SGLD_define_variables s qs = s"

definition SGHMC_define_variables :: "sampler \<Rightarrow> tensor list \<Rightarrow> sampler" where
  "SGHMC_define_variables s qs = s\<lparr>self_vs := Some (map zeros_like qs)\<rparr>"

definition SGNHT_define_variables :: "real \<Rightarrow> sampler \<Rightarrow> tensor list \<Rightarrow> sampler" where
  "SGNHT_define_variables alpha s qs =
     s\<lparr>self_vs := Some (map zeros_like qs), self_xis := Some (map (\<lambda>q. Scalar alpha) qs)\<rparr>"

definition define_variables :: "sampler \<Rightarrow> tensor list \<Rightarrow> sampler" where
  "define_variables s qs =
     (case cls s of
        None \<Rightarrow> fst (SGMCMC_define_variables s qs)
      | Some (SGLD lr) \<Rightarrow> SGLD_define_variables s qs
      | Some (SGHMC lr alpha beta n) \<Rightarrow> SGHMC_define_variables s qs
      | Some (SGNHT lr alpha tune_rate) \<Rightarrow> SGNHT_define_variables alpha s qs)"

text \<open>
  Line 42, \<^verbatim>\<open>latent_k, latent_v = [list(i) for i in zip(*six.iteritems(latent))]\<close>:
  the transposed items are two columns when there is an item and no column when there is
  none, and unpacking into two names needs exactly two.
\<close>

datatype column = Keys "string list" | Vals "latent_val list"

definition zip_star :: "(string \<times> latent_val) list \<Rightarrow> column list" where
  "zip_star items = (if items = [] then [] else [Keys (map fst items), Vals (map snd items)])"

fun unpack2 :: "column list \<Rightarrow> py_exc + (string list \<times> latent_val list)" where
  "unpack2 [Keys ks, Vals vs] = Inr (ks, vs)"
| "unpack2 cs = Inl (ValueError ''not enough values to unpack (expected 2, got 0)'')"

definition not_variable_msg :: "string \<Rightarrow> string" where
  "not_variable_msg k = ''latent['' @ [CHR 0x27] @ k @ [CHR 0x27] @ ''] is not a tensorflow Variable.''"

fun check_variables :: "string list \<Rightarrow> latent_val list \<Rightarrow> py_exc + tensor list" where
  "check_variables ks [] = Inr []"
| "check_variables [] (NotVariable # vs) = Inl (IndexError ''list index out of range'')"
| "check_variables (k # ks) (NotVariable # vs) = Inl (TypeError (not_variable_msg k))"
| "check_variables ks (Variable x # vs) =
     (case check_variables (tl ks) vs of Inl e \<Rightarrow> Inl e | Inr qs \<Rightarrow> Inr (x # qs))"

text \<open>
  What a successful \<^verbatim>\<open>sample\<close> hands back: the grouped update operation with the
  variables it reads and assigns, here with their current values.
\<close>

record bound =
  alg :: algorithm
  latent_k :: "string list"
  t_val :: "32 word"
  q_vals :: "tensor list"
  v_vals :: "tensor list"
  xi_vals :: "tensor list"

definition the_list :: "'a list option \<Rightarrow> 'a list" where
  "the_list l = (case l of None \<Rightarrow> [] | Some xs \<Rightarrow> xs)"

definition sample :: "sampler \<Rightarrow> model \<Rightarrow> (string \<times> tensor) list \<Rightarrow> (string \<times> latent_val) list
    \<Rightarrow> sampler \<times> (py_exc + bound)" where
  "sample s meta_model observed latent =
     (let s1 = s\<lparr>self_meta_model := (case meta_model of LogJointFn \<Rightarrow> None | MetaModel \<Rightarrow> Some MetaModel),
                 self_observed := Some observed, self_latent := Some latent\<rparr>
      in case unpack2 (zip_star latent) of
           Inl e \<Rightarrow> (s1, Inl e)
         | Inr (ks, vs) \<Rightarrow>
             (case check_variables ks vs of
                Inl e \<Rightarrow> (s1, Inl e)
              | Inr qs \<Rightarrow>
                  (let s2 = define_variables s1 qs
                   in case cls s2 of
                        None \<Rightarrow>
                          (case SGMCMC_update qs of
                             Inl e \<Rightarrow> (s2, Inl e)
                           | Inr r \<Rightarrow> (s2, Inl (TypeError ''zip argument after * must be an iterable, not NotImplementedError'')))
                      | Some a \<Rightarrow>
                          (s2, Inr \<lparr>alg = a, latent_k = ks, t_val = self_t s2, q_vals = qs,
                                    v_vals = the_list (self_vs s2), xi_vals = the_list (self_xis s2)\<rparr>))))"

subsection \<open>Running the update operation\<close>

text \<open>
  Each latent has up to two random operations, the momentum draw inside the conditional
  and the noise of the update; \<open>d i op\<close> is the stream of standard normal draws of
  operation \<open>op\<close> of latent \<open>i\<close> in one run.
\<close>

datatype rand_op = Momentum | Noise

type_synonym draws = "nat \<Rightarrow> rand_op \<Rightarrow> nat \<Rightarrow> real"

text \<open>
  An update operation is the group of assignments of one latent, with the values assigned;
  the diagnostics are \<^verbatim>\<open>None\<close>, \<^verbatim>\<open>{"mean_k": ..}\<close> or
  \<^verbatim>\<open>{"mean_k": .., "xi": ..}\<close>.
\<close>

datatype update_op =
    Assign_q tensor
  | Assign_q_v tensor tensor
  | Assign_q_v_xi tensor tensor tensor

datatype info = NoInfo | Mean_k tensor | Mean_k_xi tensor tensor

type_synonym single = "update_op \<times> tensor \<times> info"

definition SGLD_update_single :: "real \<Rightarrow> (rand_op \<Rightarrow> nat \<Rightarrow> real) \<Rightarrow> tensor \<Rightarrow> tensor \<Rightarrow> single" where
  "SGLD_update_single lr z q grad =
     (let new_q = tf_add (tf_add q (tf_mul (tf_mul (Scalar 0.5) (Scalar lr)) grad))
                    (random_normal (z Noise) (shape q) (tf_sqrt (Scalar lr)))
      in (Assign_q new_q, new_q, NoInfo))"

definition SGLD_update :: "real \<Rightarrow> draws \<Rightarrow> tensor list \<Rightarrow> (tensor list \<Rightarrow> tensor list) \<Rightarrow> single list" where
  "SGLD_update lr d qs grad_func =
     map (\<lambda>(i, q, grad). SGLD_update_single lr (d i) q grad)
       (zip [0..<length qs] (zip qs (grad_func qs)))"

text \<open>
  \<^verbatim>\<open>tf.cond\<close> runs the operations of the chosen branch only; its predicate, with the
  modulus, is computed on every run.
\<close>

definition SGHMC_update_single :: "real \<Rightarrow> real \<Rightarrow> real \<Rightarrow> 32 word \<Rightarrow> 32 word
    \<Rightarrow> (rand_op \<Rightarrow> nat \<Rightarrow> real) \<Rightarrow> tensor \<Rightarrow> tensor \<Rightarrow> tensor \<Rightarrow> py_exc + single" where
  "SGHMC_update_single lr alpha beta n_iter_resample_v new_t z q v grad =
     (case tf_mod new_t n_iter_resample_v of
        Inl e \<Rightarrow> Inl e
      | Inr m \<Rightarrow>
          (let old_v = (if m = 0 then random_normal (z Momentum) (shape v) (tf_sqrt (Scalar lr))
                        else v);
               new_v = tf_add (tf_add (tf_mul (tf_sub (Scalar 1) (Scalar alpha)) old_v)
                                 (tf_mul (Scalar lr) grad))
                         (random_normal (z Noise) (shape old_v)
                            (tf_sqrt (tf_mul (tf_mul (Scalar 2) (tf_sub (Scalar alpha) (Scalar beta)))
                               (Scalar lr))));
               new_q = tf_add q new_v;
               mean_k = reduce_mean (tf_square new_v)
           in Inr (Assign_q_v new_q new_v, new_q, Mean_k mean_k)))"

definition SGHMC_update :: "real \<Rightarrow> real \<Rightarrow> real \<Rightarrow> 32 word \<Rightarrow> 32 word \<Rightarrow> draws
    \<Rightarrow> tensor list \<Rightarrow> tensor list \<Rightarrow> (tensor list \<Rightarrow> tensor list) \<Rightarrow> 32 word \<times> (py_exc + single) list" where
  "SGHMC_update lr alpha beta n_iter_resample_v t d qs vs grad_func =
     (let new_t = t + 1
      in (new_t,
          map (\<lambda>(i, q, v, grad). SGHMC_update_single lr alpha beta n_iter_resample_v new_t (d i) q v grad)
            (zip [0..<length qs] (zip qs (zip vs (grad_func qs))))))"

definition SGNHT_update_single :: "real \<Rightarrow> real \<Rightarrow> real \<Rightarrow> 32 word
    \<Rightarrow> (rand_op \<Rightarrow> nat \<Rightarrow> real) \<Rightarrow> tensor \<Rightarrow> tensor \<Rightarrow> tensor \<Rightarrow> tensor \<Rightarrow> single" where
  "SGNHT_update_single lr alpha tune_rate new_t z q v xi grad =
     (let old_v = (if new_t = 0 then random_normal (z Momentum) (shape v) (tf_sqrt (Scalar lr))
                   else v);
          new_v = tf_add (tf_add (tf_mul (tf_sub (Scalar 1) xi) old_v) (tf_mul (Scalar lr) grad))
                    (random_normal (z Noise) (shape old_v)
                       (tf_sqrt (tf_mul (tf_mul (Scalar 2) (Scalar alpha)) (Scalar lr))));
          new_q = tf_add q new_v;
          mean_k = reduce_mean (tf_square new_v);
          new_xi = tf_add xi (tf_mul (Scalar tune_rate) (tf_sub mean_k (Scalar lr)))
      in (Assign_q_v_xi new_q new_v new_xi, new_q, Mean_k_xi mean_k new_xi))"

definition SGNHT_update :: "real \<Rightarrow> real \<Rightarrow> real \<Rightarrow> 32 word \<Rightarrow> draws
    \<Rightarrow> tensor list \<Rightarrow> tensor list \<Rightarrow> tensor list \<Rightarrow> (tensor list \<Rightarrow> tensor list) \<Rightarrow> 32 word \<times> single list" where
  "SGNHT_update lr alpha tune_rate t d qs vs xis grad_func =
     (let new_t = t + 1
      in (new_t,
          map (\<lambda>(i, q, v, xi, grad). SGNHT_update_single lr alpha tune_rate new_t (d i) q v xi grad)
            (zip [0..<length qs] (zip qs (zip vs (zip xis (grad_func qs)))))))"

text \<open>
  Running \<^verbatim>\<open>tf.group(*update_ops)\<close>. The graph orders the assignments of a latent
  after the computation of that latent's new values, by data dependence on lines 100
  and 101 and by the control dependencies of lines 142 and 184. It has no edge between
  the operations of different latents: the executor may assign one latent before it reads
  that latent for the gradient of another. A run is therefore given with the order the
  executor takes, a list of the two steps of every latent: \<open>Compute i\<close> evaluates the
  gradient and the new values of latent \<open>i\<close> on the variables as they are at that moment,
  \<open>Assign i\<close> writes them.
\<close>

datatype sched_op = Compute nat | Assign nat

fun op_latent :: "sched_op \<Rightarrow> nat" where
  "op_latent (Compute i) = i"
| "op_latent (Assign i) = i"

definition valid_schedule :: "nat \<Rightarrow> sched_op list \<Rightarrow> bool" where
  "valid_schedule n sch =
     (list_all (\<lambda>op. op_latent op < n) sch \<and>
      list_all (\<lambda>i. count_list sch (Compute i) = 1 \<and> count_list sch (Assign i) = 1 \<and>
                    Assign i \<notin> set (takeWhile (\<lambda>op. op \<noteq> Compute i) sch)) [0..<n])"

datatype progress = Waiting | Computed single | Assigned single

text \<open>
  The value of the update operation of latent \<open>i\<close>, as \<^verbatim>\<open>_update\<close> builds it, on the
  variables \<open>b\<close>; \<open>t\<close> is the counter before the run.
\<close>

definition evaluate :: "log_joint_grad \<Rightarrow> draws \<Rightarrow> 32 word \<Rightarrow> bound \<Rightarrow> nat \<Rightarrow> py_exc + single" where
  "evaluate dl d t b i =
     (case alg b of
        SGLD lr \<Rightarrow> Inr (SGLD_update lr d (q_vals b) (tf_gradients dl) ! i)
      | SGHMC lr alpha beta n \<Rightarrow>
          snd (SGHMC_update lr alpha beta n t d (q_vals b) (v_vals b) (tf_gradients dl)) ! i
      | SGNHT lr alpha tune_rate \<Rightarrow>
          Inr (snd (SGNHT_update lr alpha tune_rate t d (q_vals b) (v_vals b) (xi_vals b)
                      (tf_gradients dl)) ! i))"

fun op_q :: "update_op \<Rightarrow> tensor \<Rightarrow> tensor" where
  "op_q (Assign_q q') q = q'"
| "op_q (Assign_q_v q' v') q = q'"
| "op_q (Assign_q_v_xi q' v' xi') q = q'"

fun op_v :: "update_op \<Rightarrow> tensor \<Rightarrow> tensor" where
  "op_v (Assign_q q') v = v"
| "op_v (Assign_q_v q' v') v = v'"
| "op_v (Assign_q_v_xi q' v' xi') v = v'"

fun op_xi :: "update_op \<Rightarrow> tensor \<Rightarrow> tensor" where
  "op_xi (Assign_q q') xi = xi"
| "op_xi (Assign_q_v q' v') xi = xi"
| "op_xi (Assign_q_v_xi q' v' xi') xi = xi'"

definition assign :: "nat \<Rightarrow> update_op \<Rightarrow> bound \<Rightarrow> bound" where
  "assign i u b =
     b\<lparr>q_vals := (q_vals b)[i := op_q u (q_vals b ! i)],
       v_vals := (v_vals b)[i := op_v u (v_vals b ! i)],
       xi_vals := (xi_vals b)[i := op_xi u (xi_vals b ! i)]\<rparr>"

text \<open>
  A failing operation fails the run, with the assignments made until then. A step that
  the executor cannot take (an assignment before its computation, a second computation)
  is passed over.
\<close>

fun run_schedule :: "(bound \<Rightarrow> nat \<Rightarrow> py_exc + single) \<Rightarrow> sched_op list \<Rightarrow> progress list \<Rightarrow> bound
    \<Rightarrow> bound \<times> (py_exc + progress list)" where
  "run_schedule ev [] ps b = (b, Inr ps)"
| "run_schedule ev (Compute i # sch) ps b =
     (if i < length ps \<and> ps ! i = Waiting
      then (case ev b i of
              Inl e \<Rightarrow> (b, Inl e)
            | Inr r \<Rightarrow> run_schedule ev sch (ps[i := Computed r]) b)
      else run_schedule ev sch ps b)"
| "run_schedule ev (Assign i # sch) ps b =
     (case (if i < length ps then ps ! i else Waiting) of
        Computed r \<Rightarrow> run_schedule ev sch (ps[i := Assigned r]) (assign i (fst r) b)
      | Waiting \<Rightarrow> run_schedule ev sch ps b
      | Assigned r \<Rightarrow> run_schedule ev sch ps b)"

fun result_of :: "progress \<Rightarrow> single list" where
  "result_of Waiting = []"
| "result_of (Computed r) = [r]"
| "result_of (Assigned r) = [r]"

definition results :: "progress list \<Rightarrow> single list" where
  "results ps = concat (map result_of ps)"

definition fetched :: "string list \<Rightarrow> single list \<Rightarrow> (string \<times> tensor \<times> info) list" where
  \<comment> \<open>\<^verbatim>\<open>new_samples\<close> and \<^verbatim>\<open>sample_info\<close>, keyed by latent\<close>
  "fetched ks rs = zip ks (map snd rs)"

text \<open>
  One run of the update operation in the order \<open>sch\<close>. In SGHMC and SGNHT
  \<^verbatim>\<open>self.t.assign_add(1)\<close> comes first: every computation reads its result.
\<close>

definition run_sample :: "log_joint_grad \<Rightarrow> draws \<Rightarrow> sched_op list \<Rightarrow> bound
    \<Rightarrow> bound \<times> (py_exc + (string \<times> tensor \<times> info) list)" where
  "run_sample dl d sch b =
     (let b1 = (case alg b of
                  SGLD lr \<Rightarrow> b
                | SGHMC lr alpha beta n \<Rightarrow>
                    b\<lparr>t_val := fst (SGHMC_update lr alpha beta n (t_val b) d (q_vals b) (v_vals b)
                                      (tf_gradients dl))\<rparr>
                | SGNHT lr alpha tune_rate \<Rightarrow>
                    b\<lparr>t_val := fst (SGNHT_update lr alpha tune_rate (t_val b) d (q_vals b)
                                      (v_vals b) (xi_vals b) (tf_gradients dl))\<rparr>)
      in case run_schedule (evaluate dl d (t_val b)) sch (replicate (length (q_vals b)) Waiting) b1 of
           (b', Inl e) \<Rightarrow> (b', Inl e)
         | (b', Inr ps) \<Rightarrow> (b', Inr (fetched (latent_k b) (results ps))))"

text \<open>
  Successive runs, each with its own draws and its own order; a failed run leaves its
  state behind.
\<close>

fun run_steps :: "log_joint_grad \<Rightarrow> (draws \<times> sched_op list) list \<Rightarrow> bound \<Rightarrow> bound" where
  "run_steps dl [] b = b"
| "run_steps dl ((d, sch) # ds) b = run_steps dl ds (fst (run_sample dl d sch b))"

text \<open>
  The variables of a bound sampler keep their shapes: every velocity has the shape of its
  latent, every thermostat variable is a scalar.
\<close>

fun is_scalar :: "tensor \<Rightarrow> bool" where
  "is_scalar (Scalar x) = True"
| "is_scalar (Array s d) = False"

definition aligned :: "bound \<Rightarrow> bool" where
  "aligned b =
     (list_all wf_tensor (q_vals b) \<and> length (latent_k b) = length (q_vals b) \<and>
      (case alg b of
         SGLD lr \<Rightarrow> True
       | SGHMC lr alpha beta n \<Rightarrow>
           list_all2 (\<lambda>q v. shape v = shape q \<and> wf_tensor v) (q_vals b) (v_vals b)
       | SGNHT lr alpha tune_rate \<Rightarrow>
           list_all2 (\<lambda>q v. shape v = shape q \<and> wf_tensor v) (q_vals b) (v_vals b) \<and>
           list_all2 (\<lambda>q xi. is_scalar xi) (q_vals b) (xi_vals b)))"

text \<open>
  The update rules in the spec's words, entry by entry: entry \<open>j\<close> of a draw from
  Normal(0, \<open>var\<close>) is the standard normal draw scaled by the standard deviation.
\<close>

definition normal_entry :: "(nat \<Rightarrow> real) \<Rightarrow> real \<Rightarrow> nat \<Rightarrow> real" where
  "normal_entry z var j = z j * sqrt var"

definition mean_of_squares :: "real list \<Rightarrow> real" where
  "mean_of_squares xs = (\<Sum>x\<leftarrow>xs. x ^ 2) / real (length xs)"

text \<open>
  Notions for the proofs about a run. The variables of one latent, where they exist; what
  an update operation makes of them; the new values an algorithm's operation may assign
  for the shapes to be kept; and the state of one latent in the middle of a run that
  started from the variables \<open>b0\<close>, with the steps \<open>rest\<close> still to come.
\<close>

definition var_at :: "tensor list \<Rightarrow> nat \<Rightarrow> tensor option" where
  "var_at xs i = (if i < length xs then Some (xs ! i) else None)"

definition own :: "bound \<Rightarrow> nat \<Rightarrow> tensor option \<times> tensor option \<times> tensor option" where
  "own b i = (var_at (q_vals b) i, var_at (v_vals b) i, var_at (xi_vals b) i)"

fun applied :: "update_op \<Rightarrow> tensor option \<times> tensor option \<times> tensor option
    \<Rightarrow> tensor option \<times> tensor option \<times> tensor option" where
  "applied u (q, v, xi) = (map_option (op_q u) q, map_option (op_v u) v, map_option (op_xi u) xi)"

fun fits :: "algorithm \<Rightarrow> update_op \<Rightarrow> bool" where
  "fits (SGLD lr) (Assign_q q') = wf_tensor q'"
| "fits (SGHMC lr alpha beta n) (Assign_q_v q' v') =
     (wf_tensor q' \<and> wf_tensor v' \<and> shape v' = shape q')"
| "fits (SGNHT lr alpha tune_rate) (Assign_q_v_xi q' v' xi') =
     (wf_tensor q' \<and> wf_tensor v' \<and> shape v' = shape q' \<and> is_scalar xi')"
| "fits a u = False"

definition same_frame :: "bound \<Rightarrow> bound \<Rightarrow> bool" where
  "same_frame b0 b =
     (alg b = alg b0 \<and> latent_k b = latent_k b0 \<and> t_val b = t_val b0 \<and>
      length (q_vals b) = length (q_vals b0))"

definition computed_at :: "(bound \<Rightarrow> nat \<Rightarrow> py_exc + single) \<Rightarrow> bound \<Rightarrow> nat \<Rightarrow> single \<Rightarrow> bool" where
  "computed_at ev b0 i r =
     (\<exists>bi. aligned bi \<and> same_frame b0 bi \<and> own bi i = own b0 i \<and> ev bi i = Inr r \<and>
           fits (alg b0) (fst r))"

definition on_track :: "(bound \<Rightarrow> nat \<Rightarrow> py_exc + single) \<Rightarrow> bound \<Rightarrow> sched_op list \<Rightarrow> progress list
    \<Rightarrow> bound \<Rightarrow> nat \<Rightarrow> bool" where
  "on_track ev b0 rest ps b i =
     (case ps ! i of
        Waiting \<Rightarrow>
          own b i = own b0 i \<and> count_list rest (Compute i) = 1 \<and> count_list rest (Assign i) = 1 \<and>
          Assign i \<notin> set (takeWhile (\<lambda>op. op \<noteq> Compute i) rest)
      | Computed r \<Rightarrow>
          computed_at ev b0 i r \<and> own b i = own b0 i \<and>
          count_list rest (Compute i) = 0 \<and> count_list rest (Assign i) = 1
      | Assigned r \<Rightarrow>
          computed_at ev b0 i r \<and> own b i = applied (fst r) (own b0 i) \<and>
          count_list rest (Compute i) = 0 \<and> count_list rest (Assign i) = 0)"

subsection \<open>Facts about tensors\<close>

lemma ew1_facts [simp]:
  "shape (ew1 f x) = shape x"
  "elems (ew1 f x) = map f (elems x)"
  "wf_tensor (ew1 f x) = wf_tensor x"
  by (cases x; simp)+

lemma ew2_scalar_left [simp]:
  "shape (ew2 f (Scalar a) x) = shape x"
  "elems (ew2 f (Scalar a) x) = map (f a) (elems x)"
  "wf_tensor (ew2 f (Scalar a) x) = wf_tensor x"
  by (cases x; simp)+

lemma ew2_scalar_right [simp]:
  "shape (ew2 f x (Scalar a)) = shape x"
  "elems (ew2 f x (Scalar a)) = map (\<lambda>e. f e a) (elems x)"
  "wf_tensor (ew2 f x (Scalar a)) = wf_tensor x"
  by (cases x; simp)+

lemma same_shape_length:
  "shape x = shape y \<Longrightarrow> wf_tensor x \<Longrightarrow> wf_tensor y \<Longrightarrow> length (elems x) = length (elems y)"
  by (cases x; cases y; simp)

lemma ew2_same_shape:
  assumes "shape x = shape y" "wf_tensor x" "wf_tensor y"
  shows "shape (ew2 f x y) = shape x"
    and "elems (ew2 f x y) = map2 f (elems x) (elems y)"
    and "wf_tensor (ew2 f x y)"
  using assms by (cases x; cases y; simp)+

lemma map2_nth_upt:
  "length xs = n \<Longrightarrow> map2 h xs (map f [0..<n]) = map (\<lambda>j. h (xs ! j) (f j)) [0..<n]"
  by (rule nth_equalityI) simp_all

lemma map_nth_upt:
  "length xs = n \<Longrightarrow> map f xs = map (\<lambda>j. f (xs ! j)) [0..<n]"
  by (rule nth_equalityI) simp_all

lemma map2_upt_upt:
  "map2 h (map f [0..<n]) (map g [0..<n]) = map (\<lambda>j. h (f j) (g j)) [0..<n]"
  by (rule nth_equalityI) simp_all

lemma tensor_eqI:
  "shape x = shape y \<Longrightarrow> elems x = elems y \<Longrightarrow> wf_tensor x \<Longrightarrow> wf_tensor y \<Longrightarrow> x = y"
  by (cases x; cases y; simp)

lemma is_scalar_iff: "is_scalar x \<longleftrightarrow> (\<exists>a. x = Scalar a)"
  by (cases x) simp_all

lemma random_standard_normal_facts:
  assumes "wf_tensor q"
  shows "shape (random_standard_normal z (shape q)) = shape q"
    and "elems (random_standard_normal z (shape q)) = map z [0..<length (elems q)]"
    and "wf_tensor (random_standard_normal z (shape q))"
proof -
  show "shape (random_standard_normal z (shape q)) = shape q"
    by (cases q; cases "shape q"; simp)
  show "elems (random_standard_normal z (shape q)) = map z [0..<length (elems q)]"
    using assms by (cases q; cases "shape q"; simp)
  show "wf_tensor (random_standard_normal z (shape q))"
    by (cases q; cases "shape q"; simp)
qed

lemma random_normal_facts:
  assumes "wf_tensor q"
  shows "shape (random_normal z (shape q) (Scalar sd)) = shape q"
    and "elems (random_normal z (shape q) (Scalar sd)) = map (\<lambda>j. z j * sd) [0..<length (elems q)]"
    and "wf_tensor (random_normal z (shape q) (Scalar sd))"
  using random_standard_normal_facts [OF assms, of z]
  by (simp_all add: random_normal_def tf_add_def tf_mul_def)

lemma tensor_like_facts [simp]:
  "shape (tensor_like q f) = shape q"
  "elems (tensor_like q f) = map f [0..<length (elems q)]"
  "wf_tensor (tensor_like q f) = wf_tensor q"
  by (cases q; simp)+

lemma length_tf_gradients [simp]: "length (tf_gradients dl qs) = length qs"
  by (simp add: tf_gradients_def)

lemma nth_tf_gradients:
  "i < length qs \<Longrightarrow> tf_gradients dl qs ! i = tensor_like (qs ! i) (dl qs i)"
  by (simp add: tf_gradients_def)

subsection \<open>Binding\<close>

lemma check_variables_all:
  "length ks = length vs \<Longrightarrow> \<forall>v \<in> set vs. v \<noteq> NotVariable \<Longrightarrow>
     \<exists>qs. check_variables ks vs = Inr qs \<and> map Variable qs = vs"
proof (induction vs arbitrary: ks)
  case Nil
  then show ?case by simp
next
  case (Cons v vs)
  from Cons.prems obtain k ks' where ks: "ks = k # ks'" by (cases ks) auto
  from Cons.prems obtain x where v: "v = Variable x" by (cases v) auto
  from Cons.IH [of ks'] Cons.prems ks obtain qs where
    "check_variables ks' vs = Inr qs" "map Variable qs = vs" by auto
  then show ?case by (simp add: ks v)
qed

lemma check_variables_fails:
  "NotVariable \<in> set (map snd items) \<Longrightarrow>
     \<exists>k. (k, NotVariable) \<in> set items \<and>
         check_variables (map fst items) (map snd items) = Inl (TypeError (not_variable_msg k))"
proof (induction items)
  case Nil
  then show ?case by simp
next
  case (Cons kv items)
  obtain k v where kv: "kv = (k, v)" by (cases kv)
  show ?case
  proof (cases v)
    case NotVariable
    then show ?thesis by (auto simp: kv)
  next
    case (Variable x)
    with Cons.prems kv have "NotVariable \<in> set (map snd items)" by auto
    from Cons.IH [OF this] obtain k' where
      "(k', NotVariable) \<in> set items"
      "check_variables (map fst items) (map snd items) = Inl (TypeError (not_variable_msg k'))"
      by blast
    then show ?thesis by (auto simp: kv Variable)
  qed
qed

text \<open>
  C10. With an empty latent mapping \<^verbatim>\<open>sample\<close> fails at the unpacking of line 42 with a
  \<^verbatim>\<open>ValueError\<close>: the check of the latent values, which raises the \<^verbatim>\<open>TypeError\<close>
  naming a key, is not reached, and nothing is allocated.
\<close>

theorem sample_empty_latent_ValueError:
  "sample s meta_model observed [] =
     (s\<lparr>self_meta_model := (case meta_model of LogJointFn \<Rightarrow> None | MetaModel \<Rightarrow> Some MetaModel),
        self_observed := Some observed, self_latent := Some []\<rparr>,
      Inl (ValueError ''not enough values to unpack (expected 2, got 0)''))"
  by (simp add: sample_def zip_star_def)

text \<open>
  C2. The hooks of the base class do not fail: \<^verbatim>\<open>_update\<close> and
  \<^verbatim>\<open>_define_variables\<close> end normally, and what they return is a
  \<^verbatim>\<open>NotImplementedError\<close> object. Nothing is raised.
\<close>

theorem SGMCMC_hooks_return_normally:
  "SGMCMC_update qs = Inr (ExcObject NotImplementedError) \<and>
   SGMCMC_define_variables s qs = (s, Inr (ExcObject NotImplementedError)) \<and>
   (\<forall>e. SGMCMC_update qs \<noteq> Inl e) \<and> (\<forall>e. snd (SGMCMC_define_variables s qs) \<noteq> Inl e)"
  by (simp add: SGMCMC_update_def SGMCMC_define_variables_def)

text \<open>
  C3. Whatever the algorithm, when some value of the latent mapping is not a variable,
  \<^verbatim>\<open>sample\<close> raises the \<^verbatim>\<open>TypeError\<close> of lines 45-46, whose message is
  \<^verbatim>\<open>latent['k'] is not a tensorflow Variable.\<close> for the key \<open>k\<close> of such a value, and the
  sampler it leaves behind has the velocity and thermostat variables it had before: none
  is created.
\<close>

theorem sample_not_variable_TypeError:
  assumes "(k0, NotVariable) \<in> set latent"
  shows "\<exists>k s'. (k, NotVariable) \<in> set latent \<and>
           sample s meta_model observed latent =
             (s', Inl (TypeError (''latent['' @ [CHR 0x27] @ k @ [CHR 0x27] @
                                  ''] is not a tensorflow Variable.''))) \<and>
           self_vs s' = self_vs s \<and> self_xis s' = self_xis s \<and> self_t s' = self_t s"
proof -
  from assms have ne: "latent \<noteq> []" by auto
  from assms have "NotVariable \<in> set (map snd latent)" by force
  from check_variables_fails [OF this] obtain k where
    k: "(k, NotVariable) \<in> set latent"
    and c: "check_variables (map fst latent) (map snd latent) = Inl (TypeError (not_variable_msg k))"
    by blast
  from ne c have
    "sample s meta_model observed latent =
       (s\<lparr>self_meta_model := (case meta_model of LogJointFn \<Rightarrow> None | MetaModel \<Rightarrow> Some MetaModel),
          self_observed := Some observed, self_latent := Some latent\<rparr>,
        Inl (TypeError (''latent['' @ [CHR 0x27] @ k @ [CHR 0x27] @
                        ''] is not a tensorflow Variable.'')))"
    by (simp add: sample_def zip_star_def not_variable_msg_def)
  with k show ?thesis by auto
qed

theorem sample_not_variable_TypeError_witness:
  "(''b'', NotVariable) \<in> set [(''a'', Variable (Scalar 0)), (''b'', NotVariable)] \<and>
   (\<exists>s'.
      sample (SGNHT_init 1 0 1) LogJointFn [] [(''a'', Variable (Scalar 0)), (''b'', NotVariable)]
        = (s', Inl (TypeError (''latent['' @ [CHR 0x27] @ ''b'' @ [CHR 0x27] @
                               ''] is not a tensorflow Variable.''))) \<and>
      self_vs s' = self_vs (SGNHT_init 1 0 1) \<and> self_xis s' = self_xis (SGNHT_init 1 0 1) \<and>
      self_t s' = self_t (SGNHT_init 1 0 1))"
proof -
  have h: "(''b'', NotVariable) \<in> set [(''a'', Variable (Scalar 0)), (''b'', NotVariable)]"
    by simp
  from sample_not_variable_TypeError [OF h, of "SGNHT_init 1 0 1" LogJointFn "[]"]
  obtain k s' where
    "(k, NotVariable) \<in> set [(''a'', Variable (Scalar 0)), (''b'', NotVariable)]"
    and r: "sample (SGNHT_init 1 0 1) LogJointFn [] [(''a'', Variable (Scalar 0)), (''b'', NotVariable)]
        = (s', Inl (TypeError (''latent['' @ [CHR 0x27] @ k @ [CHR 0x27] @
                               ''] is not a tensorflow Variable.'')))"
    and u: "self_vs s' = self_vs (SGNHT_init 1 0 1)" "self_xis s' = self_xis (SGNHT_init 1 0 1)"
      "self_t s' = self_t (SGNHT_init 1 0 1)"
    by blast
  then have "k = ''b''" by simp
  with r u h show ?thesis by blast
qed

subsection \<open>One run, latent by latent\<close>

lemma length_SGLD_update [simp]:
  "length (SGLD_update lr d qs (tf_gradients dl)) = length qs"
  by (simp add: SGLD_update_def)

lemma nth_SGLD_update:
  "i < length qs \<Longrightarrow>
     SGLD_update lr d qs (tf_gradients dl) ! i =
       SGLD_update_single lr (d i) (qs ! i) (tensor_like (qs ! i) (dl qs i))"
  by (simp add: SGLD_update_def nth_tf_gradients)

lemma SGLD_update_single_facts:
  assumes "wf_tensor q"
  shows "\<exists>new_q. SGLD_update_single lr z q (tensor_like q g) = (Assign_q new_q, new_q, NoInfo) \<and>
           shape new_q = shape q \<and> wf_tensor new_q \<and>
           elems new_q = map (\<lambda>j. elems q ! j + 0.5 * lr * g j + normal_entry (z Noise) lr j)
                           [0..<length (elems q)]"
proof -
  let ?drift = "tf_mul (tf_mul (Scalar 0.5) (Scalar lr)) (tensor_like q g)"
  let ?noise = "random_normal (z Noise) (shape q) (tf_sqrt (Scalar lr))"
  let ?a = "tf_add q ?drift"
  have dr: "shape ?drift = shape q" "wf_tensor ?drift"
    "elems ?drift = map (\<lambda>j. 0.5 * lr * g j) [0..<length (elems q)]"
    using assms by (simp_all add: tf_mul_def)
  have a: "shape ?a = shape q" "wf_tensor ?a"
    "elems ?a = map (\<lambda>j. elems q ! j + 0.5 * lr * g j) [0..<length (elems q)]"
    using ew2_same_shape [of q ?drift "(+)"] dr assms
    by (simp_all add: tf_add_def map2_nth_upt)
  have sq: "tf_sqrt (Scalar lr) = Scalar (sqrt lr)" by (simp add: tf_sqrt_def)
  have no: "shape ?noise = shape q" "wf_tensor ?noise"
    "elems ?noise = map (\<lambda>j. z Noise j * sqrt lr) [0..<length (elems q)]"
    using random_normal_facts [OF assms, of "z Noise" "sqrt lr"] by (simp_all add: sq)
  have "shape (tf_add ?a ?noise) = shape q" "wf_tensor (tf_add ?a ?noise)"
    "elems (tf_add ?a ?noise) =
       map (\<lambda>j. elems q ! j + 0.5 * lr * g j + normal_entry (z Noise) lr j) [0..<length (elems q)]"
    using ew2_same_shape [of ?a ?noise "(+)"] a no
    by (simp_all add: tf_add_def map2_upt_upt normal_entry_def)
  then show ?thesis by (simp add: SGLD_update_single_def Let_def)
qed

lemma velocity_step_facts:
  assumes "wf_tensor q" "wf_tensor ov" "shape ov = shape q"
    and nv: "nv = tf_add (tf_add (tf_mul (Scalar a) ov) (tf_mul (Scalar lr) (tensor_like q g)))
                    (random_normal zn (shape ov) (Scalar sd))"
  shows "shape nv = shape q" and "wf_tensor nv"
    and "elems nv = map (\<lambda>j. a * elems ov ! j + lr * g j + zn j * sd) [0..<length (elems q)]"
    and "shape (tf_add q nv) = shape q" and "wf_tensor (tf_add q nv)"
    and "elems (tf_add q nv) = map (\<lambda>j. elems q ! j + elems nv ! j) [0..<length (elems q)]"
    and "reduce_mean (tf_square nv) = Scalar (mean_of_squares (elems nv))"
proof -
  let ?n = "length (elems q)"
  let ?fr = "tf_mul (Scalar a) ov"
  let ?dr = "tf_mul (Scalar lr) (tensor_like q g)"
  let ?no = "random_normal zn (shape ov) (Scalar sd)"
  have lov: "length (elems ov) = ?n"
    using same_shape_length [of ov q] assms(1-3) by simp
  have fr: "shape ?fr = shape q" "wf_tensor ?fr" "elems ?fr = map (\<lambda>j. a * elems ov ! j) [0..<?n]"
    using assms(2,3) map_nth_upt [OF lov, of "(*) a"] by (simp_all add: tf_mul_def)
  have dr: "shape ?dr = shape q" "wf_tensor ?dr" "elems ?dr = map (\<lambda>j. lr * g j) [0..<?n]"
    using assms(1) by (simp_all add: tf_mul_def)
  have s1: "shape (tf_add ?fr ?dr) = shape q" "wf_tensor (tf_add ?fr ?dr)"
    "elems (tf_add ?fr ?dr) = map (\<lambda>j. a * elems ov ! j + lr * g j) [0..<?n]"
    using ew2_same_shape [of ?fr ?dr "(+)"] fr dr by (simp_all add: tf_add_def map2_upt_upt)
  have no: "shape ?no = shape q" "wf_tensor ?no" "elems ?no = map (\<lambda>j. zn j * sd) [0..<?n]"
    using random_normal_facts [OF assms(2), of zn sd] assms(3) lov by simp_all
  show v1: "shape nv = shape q" and v2: "wf_tensor nv"
    and v3: "elems nv = map (\<lambda>j. a * elems ov ! j + lr * g j + zn j * sd) [0..<?n]"
    using ew2_same_shape [of "tf_add ?fr ?dr" ?no "(+)"] s1 no
    by (simp_all add: nv tf_add_def map2_upt_upt)
  from v3 have lnv: "length (elems nv) = ?n" by simp
  show "shape (tf_add q nv) = shape q" and "wf_tensor (tf_add q nv)"
    and "elems (tf_add q nv) = map (\<lambda>j. elems q ! j + elems nv ! j) [0..<?n]"
    using ew2_same_shape [of q nv "(+)"] v1 v2 assms(1) lnv
      map2_nth_upt [of "elems q" ?n "(+)" "\<lambda>j. elems nv ! j"] map_nth [of "elems nv"]
    by (simp_all add: tf_add_def)
  show "reduce_mean (tf_square nv) = Scalar (mean_of_squares (elems nv))"
    by (simp add: reduce_mean_def tf_square_def mean_of_squares_def)
qed

lemma tf_mod_nonzero:
  "n \<noteq> 0 \<Longrightarrow> tf_mod x n = Inr (word_of_int (sint x mod sint n))"
  by (simp add: tf_mod_def)

lemma tf_mod_zero_iff:
  assumes "0 < sint (n :: 32 word)"
  shows "(word_of_int (sint x mod sint n) = (0 :: 32 word)) \<longleftrightarrow> sint x mod sint n = 0"
proof
  assume z: "word_of_int (sint x mod sint n) = (0 :: 32 word)"
  have lo: "0 \<le> sint x mod sint n" using assms by simp
  have "sint n < 2 ^ 31" using sint_lt [of n] by simp
  moreover have "sint x mod sint n < sint n" using assms by simp
  ultimately have hi: "sint x mod sint n < 2 ^ 32" by simp
  from z have "(2 :: int) ^ 32 dvd sint x mod sint n"
    by (simp add: word_of_int_eq_0_iff)
  with lo hi show "sint x mod sint n = 0"
    using zdvd_imp_le [of "2 ^ 32" "sint x mod sint n"] by (cases "sint x mod sint n = 0") simp_all
next
  assume "sint x mod sint n = 0"
  then show "word_of_int (sint x mod sint n) = (0 :: 32 word)" by simp
qed

lemma SGHMC_update_single_facts:
  assumes "wf_tensor q" "wf_tensor v" "shape v = shape q" "n \<noteq> 0"
  shows "\<exists>old_v new_v new_q.
           SGHMC_update_single lr alpha beta n new_t z q v (tensor_like q g)
             = Inr (Assign_q_v new_q new_v, new_q, Mean_k (Scalar (mean_of_squares (elems new_v)))) \<and>
           (if word_of_int (sint new_t mod sint n) = (0 :: 32 word)
            then shape old_v = shape v \<and>
                 elems old_v = map (normal_entry (z Momentum) lr) [0..<length (elems v)]
            else old_v = v) \<and>
           shape new_v = shape q \<and> wf_tensor new_v \<and>
           elems new_v = map (\<lambda>j. (1 - alpha) * elems old_v ! j + lr * g j
                                   + normal_entry (z Noise) (2 * (alpha - beta) * lr) j)
                           [0..<length (elems q)] \<and>
           shape new_q = shape q \<and> wf_tensor new_q \<and>
           elems new_q = map (\<lambda>j. elems q ! j + elems new_v ! j) [0..<length (elems q)]"
proof -
  let ?m = "word_of_int (sint new_t mod sint n) :: 32 word"
  let ?ov = "if ?m = 0 then random_normal (z Momentum) (shape v) (tf_sqrt (Scalar lr)) else v"
  let ?sd = "sqrt (2 * (alpha - beta) * lr)"
  let ?nv = "tf_add (tf_add (tf_mul (Scalar (1 - alpha)) ?ov) (tf_mul (Scalar lr) (tensor_like q g)))
               (random_normal (z Noise) (shape ?ov) (Scalar ?sd))"
  have fresh: "shape (random_normal (z Momentum) (shape v) (tf_sqrt (Scalar lr))) = shape v"
    "wf_tensor (random_normal (z Momentum) (shape v) (tf_sqrt (Scalar lr)))"
    "elems (random_normal (z Momentum) (shape v) (tf_sqrt (Scalar lr)))
       = map (normal_entry (z Momentum) lr) [0..<length (elems v)]"
    using random_normal_facts [OF assms(2), of "z Momentum" "sqrt lr"]
    by (simp_all add: tf_sqrt_def normal_entry_def)
  have ov: "wf_tensor ?ov" "shape ?ov = shape q"
    using fresh assms(2,3) by simp_all
  have branch: "if ?m = 0 then shape ?ov = shape v \<and>
        elems ?ov = map (normal_entry (z Momentum) lr) [0..<length (elems v)] else ?ov = v"
    using fresh by simp
  note f = velocity_step_facts [OF assms(1) ov refl, of "1 - alpha" lr g "z Noise" ?sd]
  have run: "SGHMC_update_single lr alpha beta n new_t z q v (tensor_like q g)
      = Inr (Assign_q_v (tf_add q ?nv) ?nv, tf_add q ?nv, Mean_k (Scalar (mean_of_squares (elems ?nv))))"
    unfolding SGHMC_update_single_def tf_mod_nonzero [OF assms(4)]
    using f(7) by (simp add: Let_def tf_sub_def tf_mul_def tf_sqrt_def)
  have nv: "elems ?nv = map (\<lambda>j. (1 - alpha) * elems ?ov ! j + lr * g j
                               + normal_entry (z Noise) (2 * (alpha - beta) * lr) j)
                          [0..<length (elems q)]"
    using f(3) by (simp add: normal_entry_def)
  from run branch f(1,2) nv f(4,5,6) show ?thesis by blast
qed

lemma aligned_vs:
  assumes "aligned b" and "alg b = SGHMC lr alpha beta n \<or> alg b = SGNHT lr' alpha' tune_rate"
  shows "length (v_vals b) = length (q_vals b)"
    and "i < length (q_vals b) \<Longrightarrow> shape (v_vals b ! i) = shape (q_vals b ! i) \<and> wf_tensor (v_vals b ! i)"
  using assms by (auto simp: aligned_def list_all2_conv_all_nth)

lemma SGHMC_update_facts:
  assumes "length vs = length qs"
  shows "fst (SGHMC_update lr alpha beta n t d qs vs (tf_gradients dl)) = t + 1"
    and "length (snd (SGHMC_update lr alpha beta n t d qs vs (tf_gradients dl))) = length qs"
    and "i < length qs \<Longrightarrow>
           snd (SGHMC_update lr alpha beta n t d qs vs (tf_gradients dl)) ! i =
             SGHMC_update_single lr alpha beta n (t + 1) (d i) (qs ! i) (vs ! i)
               (tensor_like (qs ! i) (dl qs i))"
  using assms by (simp_all add: SGHMC_update_def Let_def nth_tf_gradients)

lemma SGNHT_update_single_facts:
  assumes "wf_tensor q" "wf_tensor v" "shape v = shape q"
  shows "\<exists>old_v new_v new_q.
           SGNHT_update_single lr alpha tune_rate new_t z q v (Scalar xi) (tensor_like q g)
             = (Assign_q_v_xi new_q new_v
                  (Scalar (xi + tune_rate * (mean_of_squares (elems new_v) - lr))),
                new_q,
                Mean_k_xi (Scalar (mean_of_squares (elems new_v)))
                  (Scalar (xi + tune_rate * (mean_of_squares (elems new_v) - lr)))) \<and>
           (if new_t = 0
            then shape old_v = shape v \<and>
                 elems old_v = map (normal_entry (z Momentum) lr) [0..<length (elems v)]
            else old_v = v) \<and>
           shape new_v = shape q \<and> wf_tensor new_v \<and>
           elems new_v = map (\<lambda>j. (1 - xi) * elems old_v ! j + lr * g j
                                   + normal_entry (z Noise) (2 * alpha * lr) j)
                           [0..<length (elems q)] \<and>
           shape new_q = shape q \<and> wf_tensor new_q \<and>
           elems new_q = map (\<lambda>j. elems q ! j + elems new_v ! j) [0..<length (elems q)]"
proof -
  let ?ov = "if new_t = 0 then random_normal (z Momentum) (shape v) (tf_sqrt (Scalar lr)) else v"
  let ?sd = "sqrt (2 * alpha * lr)"
  let ?nv = "tf_add (tf_add (tf_mul (Scalar (1 - xi)) ?ov) (tf_mul (Scalar lr) (tensor_like q g)))
               (random_normal (z Noise) (shape ?ov) (Scalar ?sd))"
  let ?nxi = "Scalar (xi + tune_rate * (mean_of_squares (elems ?nv) - lr))"
  have fresh: "shape (random_normal (z Momentum) (shape v) (tf_sqrt (Scalar lr))) = shape v"
    "wf_tensor (random_normal (z Momentum) (shape v) (tf_sqrt (Scalar lr)))"
    "elems (random_normal (z Momentum) (shape v) (tf_sqrt (Scalar lr)))
       = map (normal_entry (z Momentum) lr) [0..<length (elems v)]"
    using random_normal_facts [OF assms(2), of "z Momentum" "sqrt lr"]
    by (simp_all add: tf_sqrt_def normal_entry_def)
  have ov: "wf_tensor ?ov" "shape ?ov = shape q"
    using fresh assms(2,3) by simp_all
  have branch: "if new_t = 0 then shape ?ov = shape v \<and>
        elems ?ov = map (normal_entry (z Momentum) lr) [0..<length (elems v)] else ?ov = v"
    using fresh by simp
  note f = velocity_step_facts [OF assms(1) ov refl, of "1 - xi" lr g "z Noise" ?sd]
  have run: "SGNHT_update_single lr alpha tune_rate new_t z q v (Scalar xi) (tensor_like q g)
      = (Assign_q_v_xi (tf_add q ?nv) ?nv ?nxi, tf_add q ?nv,
         Mean_k_xi (Scalar (mean_of_squares (elems ?nv))) ?nxi)"
    unfolding SGNHT_update_single_def
    using f(7) by (simp add: Let_def tf_sub_def tf_mul_def tf_sqrt_def tf_add_def)
  have nv: "elems ?nv = map (\<lambda>j. (1 - xi) * elems ?ov ! j + lr * g j
                               + normal_entry (z Noise) (2 * alpha * lr) j)
                          [0..<length (elems q)]"
    using f(3) by (simp add: normal_entry_def)
  from run branch f(1,2) nv f(4,5,6) show ?thesis by blast
qed

lemma aligned_xis:
  assumes "aligned b" and "alg b = SGNHT lr alpha tune_rate"
  shows "length (xi_vals b) = length (q_vals b)"
    and "i < length (q_vals b) \<Longrightarrow> \<exists>xi. xi_vals b ! i = Scalar xi"
  using assms by (auto simp: aligned_def list_all2_conv_all_nth is_scalar_iff)

lemma SGNHT_update_facts:
  assumes "length vs = length qs" "length xis = length qs"
  shows "fst (SGNHT_update lr alpha tune_rate t d qs vs xis (tf_gradients dl)) = t + 1"
    and "length (snd (SGNHT_update lr alpha tune_rate t d qs vs xis (tf_gradients dl))) = length qs"
    and "i < length qs \<Longrightarrow>
           snd (SGNHT_update lr alpha tune_rate t d qs vs xis (tf_gradients dl)) ! i =
             SGNHT_update_single lr alpha tune_rate (t + 1) (d i) (qs ! i) (vs ! i) (xis ! i)
               (tensor_like (qs ! i) (dl qs i))"
  using assms by (simp_all add: SGNHT_update_def Let_def nth_tf_gradients)

lemma aligned_wf_q:
  "aligned b \<Longrightarrow> i < length (q_vals b) \<Longrightarrow> wf_tensor (q_vals b ! i)"
  by (simp add: aligned_def list_all_length)

lemma nth_fetched:
  "i < length ks \<Longrightarrow> i < length rs \<Longrightarrow> fetched ks rs ! i = (ks ! i, snd (rs ! i))"
  by (simp add: fetched_def)

subsection \<open>A run in any order\<close>

lemma own_assign_same: "own (assign i u b) i = applied u (own b i)"
  by (simp add: own_def assign_def var_at_def)

lemma own_assign_other: "k \<noteq> i \<Longrightarrow> own (assign k u b) i = own b i"
  by (simp add: own_def assign_def var_at_def)

lemma same_frame_assign [simp]: "same_frame b0 (assign i u b) = same_frame b0 b"
  by (simp add: same_frame_def assign_def)

lemma same_frame_refl [simp]: "same_frame b b"
  by (simp add: same_frame_def)

lemma list_all_update:
  "list_all P xs \<Longrightarrow> P x \<Longrightarrow> list_all P (xs[i := x])"
  using set_update_subset_insert [of xs i x] by (auto simp: list_all_iff)

lemma aligned_assign:
  assumes "aligned b" and "fits (alg b) u"
  shows "aligned (assign i u b)"
proof (cases "alg b")
  case (SGLD lr)
  with assms(2) obtain q' where u: "u = Assign_q q'" "wf_tensor q'"
    by (cases u) simp_all
  with assms(1) SGLD show ?thesis
    by (simp add: aligned_def assign_def list_all_update)
next
  case (SGHMC lr alpha beta n)
  with assms(2) obtain q' v' where u: "u = Assign_q_v q' v'"
    "wf_tensor q'" "wf_tensor v'" "shape v' = shape q'"
    by (cases u) simp_all
  with assms(1) SGHMC show ?thesis
    by (simp add: aligned_def assign_def list_all_update list_all2_update_cong)
next
  case (SGNHT lr alpha tune_rate)
  with assms(2) obtain q' v' xi' where u: "u = Assign_q_v_xi q' v' xi'"
    "wf_tensor q'" "wf_tensor v'" "shape v' = shape q'" "is_scalar xi'"
    by (cases u) simp_all
  with assms(1) SGNHT show ?thesis
    by (simp add: aligned_def assign_def list_all_update list_all2_update_cong)
qed

lemma run_schedule_Compute_skip:
  "\<not> (i < length ps \<and> ps ! i = Waiting) \<Longrightarrow>
     run_schedule ev (Compute i # sch) ps b = run_schedule ev sch ps b"
  by auto

lemma run_schedule_Compute:
  "i < length ps \<Longrightarrow> ps ! i = Waiting \<Longrightarrow> ev b i = Inr r \<Longrightarrow>
     run_schedule ev (Compute i # sch) ps b = run_schedule ev sch (ps[i := Computed r]) b"
  by simp

lemma run_schedule_Compute_fails:
  "i < length ps \<Longrightarrow> ps ! i = Waiting \<Longrightarrow> ev b i = Inl e \<Longrightarrow>
     run_schedule ev (Compute i # sch) ps b = (b, Inl e)"
  by simp

lemma run_schedule_Assign:
  "i < length ps \<Longrightarrow> ps ! i = Computed r \<Longrightarrow>
     run_schedule ev (Assign i # sch) ps b
       = run_schedule ev sch (ps[i := Assigned r]) (assign i (fst r) b)"
  by simp

lemma run_schedule_frame:
  "t_val (fst (run_schedule ev sch ps b)) = t_val b \<and>
   alg (fst (run_schedule ev sch ps b)) = alg b \<and>
   latent_k (fst (run_schedule ev sch ps b)) = latent_k b \<and>
   length (q_vals (fst (run_schedule ev sch ps b))) = length (q_vals b)"
proof (induction sch arbitrary: ps b)
  case Nil
  show ?case by simp
next
  case (Cons op sch)
  show ?case
  proof (cases op)
    case (Compute i)
    then show ?thesis using Cons.IH
      by (simp split: sum.splits)
  next
    case (Assign i)
    then show ?thesis using Cons.IH [of _ "assign i _ b"] Cons.IH [of _ b]
      by (simp add: assign_def split: progress.splits)
  qed
qed

lemma run_schedule_aligned:
  assumes ev: "\<And>b i r. aligned b \<Longrightarrow> alg b = a \<Longrightarrow> i < length (q_vals b) \<Longrightarrow> ev b i = Inr r
                 \<Longrightarrow> fits a (fst r)"
    and "aligned b" "alg b = a" "length ps = length (q_vals b)"
    and "list_all (\<lambda>p. case p of Computed r \<Rightarrow> fits a (fst r) | _ \<Rightarrow> True) ps"
  shows "aligned (fst (run_schedule ev sch ps b))"
  using assms(2-)
proof (induction sch arbitrary: ps b)
  case Nil
  then show ?case by simp
next
  case (Cons op sch)
  let ?P = "\<lambda>p. case p of Computed r \<Rightarrow> fits a (fst r) | _ \<Rightarrow> True"
  show ?case
  proof (cases op)
    case (Compute i)
    show ?thesis
    proof (cases "i < length ps \<and> ps ! i = Waiting")
      case False
      from Cons.IH [OF Cons.prems] show ?thesis
        unfolding Compute run_schedule_Compute_skip [OF False] .
    next
      case True
      show ?thesis
      proof (cases "ev b i")
        case (Inl e)
        with Compute True Cons.prems show ?thesis by simp
      next
        case (Inr r)
        from ev [OF Cons.prems(1,2) _ Inr] True Cons.prems(3) have f: "fits a (fst r)" by simp
        then have "list_all ?P (ps[i := Computed r])"
          using list_all_update [OF Cons.prems(4), of "Computed r" i] by simp
        from Cons.IH [OF Cons.prems(1,2) _ this] Cons.prems(3) Compute True Inr
        show ?thesis by simp
      qed
    qed
  next
    case (Assign i)
    show ?thesis
    proof (cases "if i < length ps then ps ! i else Waiting")
      case Waiting
      with Assign Cons show ?thesis by simp
    next
      case (Assigned r)
      with Assign Cons show ?thesis by simp
    next
      case (Computed r)
      then have i: "i < length ps" "ps ! i = Computed r" by (simp_all split: if_splits)
      with Cons.prems(4) have f: "fits a (fst r)"
        by (auto simp: list_all_length)
      have al: "aligned (assign i (fst r) b)"
        using aligned_assign [OF Cons.prems(1)] f Cons.prems(2) by simp
      have "list_all ?P (ps[i := Assigned r])"
        using list_all_update [OF Cons.prems(4), of "Assigned r" i] by simp
      from Cons.IH [OF al _ _ this] Cons.prems(2,3) Assign Computed
      show ?thesis by (simp add: assign_def)
    qed
  qed
qed

lemma on_track_Nil:
  "on_track ev b0 [] ps b i \<Longrightarrow>
     \<exists>r. ps ! i = Assigned r \<and> computed_at ev b0 i r \<and> own b i = applied (fst r) (own b0 i)"
  by (auto simp: on_track_def split: progress.splits)

lemma on_track_other_op:
  assumes "on_track ev b0 (op # rest) ps b i" and "op_latent op \<noteq> i"
  shows "on_track ev b0 rest ps b i"
  using assms by (cases op) (auto simp: on_track_def split: progress.splits)

lemma on_track_cong:
  "ps' ! i = ps ! i \<Longrightarrow> own b' i = own b i \<Longrightarrow>
     on_track ev b0 rest ps' b' i = on_track ev b0 rest ps b i"
  by (simp add: on_track_def split: progress.splits)

lemma on_track_Compute:
  assumes "on_track ev b0 (Compute k # rest) ps b k"
  shows "ps ! k = Waiting" and "own b k = own b0 k"
    and "count_list rest (Compute k) = 0" and "count_list rest (Assign k) = 1"
  using assms by (auto simp: on_track_def split: progress.splits)

lemma on_track_Assign:
  assumes "on_track ev b0 (Assign k # rest) ps b k"
  shows "\<exists>r. ps ! k = Computed r \<and> computed_at ev b0 k r"
    and "own b k = own b0 k"
    and "count_list rest (Compute k) = 0" and "count_list rest (Assign k) = 0"
  using assms by (auto simp: on_track_def split: progress.splits)

lemma run_schedule_valid:
  assumes ev: "\<And>b i. aligned b \<Longrightarrow> same_frame b0 b \<Longrightarrow> i < n
                 \<Longrightarrow> \<exists>r. ev b i = Inr r \<and> fits (alg b0) (fst r)"
    and "length ps = n" "aligned b" "same_frame b0 b"
    and "list_all (\<lambda>op. op_latent op < n) rest"
    and "\<forall>i<n. on_track ev b0 rest ps b i"
  shows "\<exists>b' ps'. run_schedule ev rest ps b = (b', Inr ps') \<and> aligned b' \<and> same_frame b0 b' \<and>
           length ps' = n \<and>
           (\<forall>i<n. \<exists>r. ps' ! i = Assigned r \<and> computed_at ev b0 i r \<and>
                       own b' i = applied (fst r) (own b0 i))"
  using assms(2-)
proof (induction rest arbitrary: ps b)
  case Nil
  from Nil.prems(5) on_track_Nil [of ev b0 ps b]
  have "\<forall>i<n. \<exists>r. ps ! i = Assigned r \<and> computed_at ev b0 i r \<and>
                   own b i = applied (fst r) (own b0 i)"
    by blast
  with Nil.prems(1-3) show ?case by simp
next
  case (Cons op rest)
  from Cons.prems(4) have kn: "op_latent op < n"
    and rest: "list_all (\<lambda>op. op_latent op < n) rest"
    by simp_all
  show ?case
  proof (cases op)
    case (Compute k)
    with kn have k: "k < n" by simp
    from Cons.prems(5) k Compute have tr: "on_track ev b0 (Compute k # rest) ps b k" by simp
    note c = on_track_Compute [OF tr]
    from ev [OF Cons.prems(2,3) k] obtain r where
      r: "ev b k = Inr r" "fits (alg b0) (fst r)" by blast
    let ?ps = "ps[k := Computed r]"
    have "computed_at ev b0 k r"
      unfolding computed_at_def using Cons.prems(2,3) c(2) r by blast
    then have own_k: "on_track ev b0 rest ?ps b k"
      using k Cons.prems(1) c by (simp add: on_track_def)
    have "on_track ev b0 rest ?ps b i" if i: "i < n" for i
    proof (cases "i = k")
      case True
      with own_k show ?thesis by simp
    next
      case False
      from Cons.prems(5) i have "on_track ev b0 (op # rest) ps b i" by simp
      from on_track_other_op [OF this] False Compute have "on_track ev b0 rest ps b i" by simp
      with False show ?thesis
        using on_track_cong [of ?ps i ps b b ev b0 rest] by simp
    qed
    then have "\<forall>i<n. on_track ev b0 rest ?ps b i" by simp
    from Cons.IH [OF _ Cons.prems(2,3) rest this] Cons.prems(1)
    have "\<exists>b' ps'. run_schedule ev rest ?ps b = (b', Inr ps') \<and> aligned b' \<and> same_frame b0 b' \<and>
           length ps' = n \<and>
           (\<forall>i<n. \<exists>r. ps' ! i = Assigned r \<and> computed_at ev b0 i r \<and>
                       own b' i = applied (fst r) (own b0 i))"
      by simp
    moreover have "run_schedule ev (op # rest) ps b = run_schedule ev rest ?ps b"
      unfolding Compute
      using run_schedule_Compute [of k ps ev b r rest] c(1) r(1) k Cons.prems(1) by simp
    ultimately show ?thesis by simp
  next
    case (Assign k)
    with kn have k: "k < n" by simp
    from Cons.prems(5) k Assign have tr: "on_track ev b0 (Assign k # rest) ps b k" by simp
    note a = on_track_Assign [OF tr]
    from a(1) obtain r where r: "ps ! k = Computed r" "computed_at ev b0 k r" by blast
    then have f: "fits (alg b0) (fst r)" by (auto simp: computed_at_def)
    let ?ps = "ps[k := Assigned r]"
    let ?b = "assign k (fst r) b"
    have al: "aligned ?b"
      using aligned_assign [OF Cons.prems(2), of "fst r" k] f Cons.prems(3)
      by (simp add: same_frame_def)
    have sf: "same_frame b0 ?b" using Cons.prems(3) by simp
    have own_k: "on_track ev b0 rest ?ps ?b k"
      using k Cons.prems(1) r(2) a(2-) by (simp add: on_track_def own_assign_same)
    have "on_track ev b0 rest ?ps ?b i" if i: "i < n" for i
    proof (cases "i = k")
      case True
      with own_k show ?thesis by simp
    next
      case False
      from Cons.prems(5) i have "on_track ev b0 (op # rest) ps b i" by simp
      from on_track_other_op [OF this] False Assign have "on_track ev b0 rest ps b i" by simp
      with False show ?thesis
        using on_track_cong [of ?ps i ps ?b b ev b0 rest] own_assign_other [of k i "fst r" b]
        by simp
    qed
    then have "\<forall>i<n. on_track ev b0 rest ?ps ?b i" by simp
    from Cons.IH [OF _ al sf rest this] Cons.prems(1)
    have "\<exists>b' ps'. run_schedule ev rest ?ps ?b = (b', Inr ps') \<and> aligned b' \<and> same_frame b0 b' \<and>
           length ps' = n \<and>
           (\<forall>i<n. \<exists>r. ps' ! i = Assigned r \<and> computed_at ev b0 i r \<and>
                       own b' i = applied (fst r) (own b0 i))"
      by simp
    moreover have "run_schedule ev (op # rest) ps b = run_schedule ev rest ?ps ?b"
      unfolding Assign
      using run_schedule_Assign [of k ps r ev rest b] r(1) k Cons.prems(1) by simp
    ultimately show ?thesis by simp
  qed
qed

lemma results_Assigned:
  "list_all (\<lambda>p. \<exists>r. p = Assigned r) ps \<Longrightarrow> map Assigned (results ps) = ps"
  by (induction ps) (auto simp: results_def)

lemma valid_schedule_start:
  assumes "valid_schedule n sch" and "i < n"
  shows "on_track ev b0 sch (replicate n Waiting) b0 i"
  using assms by (simp add: valid_schedule_def on_track_def list_all_iff)

lemma evaluate_SGLD:
  assumes "alg b = SGLD lr" and "i < length (q_vals b)"
  shows "evaluate dl d t b i =
           Inr (SGLD_update_single lr (d i) (q_vals b ! i)
                  (tensor_like (q_vals b ! i) (dl (q_vals b) i)))"
  using assms by (simp add: evaluate_def nth_SGLD_update)

lemma evaluate_SGHMC:
  assumes "alg b = SGHMC lr alpha beta n" and "aligned b" and "i < length (q_vals b)"
  shows "evaluate dl d t b i =
           SGHMC_update_single lr alpha beta n (t + 1) (d i) (q_vals b ! i) (v_vals b ! i)
             (tensor_like (q_vals b ! i) (dl (q_vals b) i))"
proof -
  have "length (v_vals b) = length (q_vals b)"
    using aligned_vs(1) [OF assms(2)] assms(1) by simp
  from SGHMC_update_facts(3) [OF this assms(3)] assms(1) show ?thesis
    by (simp add: evaluate_def)
qed

lemma evaluate_SGNHT:
  assumes "alg b = SGNHT lr alpha tune_rate" and "aligned b" and "i < length (q_vals b)"
  shows "evaluate dl d t b i =
           Inr (SGNHT_update_single lr alpha tune_rate (t + 1) (d i) (q_vals b ! i) (v_vals b ! i)
                  (xi_vals b ! i) (tensor_like (q_vals b ! i) (dl (q_vals b) i)))"
proof -
  have "length (v_vals b) = length (q_vals b)"
    using aligned_vs(1) [OF assms(2)] assms(1) by simp
  moreover have "length (xi_vals b) = length (q_vals b)"
    using aligned_xis(1) [OF assms(2,1)] .
  ultimately show ?thesis
    using SGNHT_update_facts(3) [of "v_vals b" "q_vals b" "xi_vals b" i] assms(1,3)
    by (simp add: evaluate_def)
qed

lemma SGHMC_update_single_zero:
  "SGHMC_update_single lr alpha beta 0 new_t z q v grad
     = Inl (InvalidArgumentError ''Integer division by zero'')"
  by (simp add: SGHMC_update_single_def tf_mod_def)

lemma evaluate_succeeds:
  assumes "aligned b" and "i < length (q_vals b)"
    and "\<And>lr alpha beta. alg b \<noteq> SGHMC lr alpha beta 0"
  shows "\<exists>r. evaluate dl d t b i = Inr r \<and> fits (alg b) (fst r)"
proof (cases "alg b")
  case (SGLD lr)
  from SGLD_update_single_facts [OF aligned_wf_q [OF assms(1,2)], of lr "d i" "dl (q_vals b) i"]
  show ?thesis
    unfolding evaluate_SGLD [OF SGLD assms(2)] using SGLD by auto
next
  case (SGHMC lr alpha beta n)
  with assms(3) have n0: "n \<noteq> 0" by auto
  have v: "shape (v_vals b ! i) = shape (q_vals b ! i)" "wf_tensor (v_vals b ! i)"
    using aligned_vs(2) [OF assms(1) _ assms(2)] SGHMC by simp_all
  from SGHMC_update_single_facts [OF aligned_wf_q [OF assms(1,2)] v(2) v(1) n0,
      of lr alpha beta "t + 1" "d i" "dl (q_vals b) i"]
  show ?thesis
    unfolding evaluate_SGHMC [OF SGHMC assms(1,2)] using SGHMC by auto
next
  case (SGNHT lr alpha tune_rate)
  have v: "shape (v_vals b ! i) = shape (q_vals b ! i)" "wf_tensor (v_vals b ! i)"
    using aligned_vs(2) [OF assms(1) _ assms(2)] SGNHT by simp_all
  from aligned_xis(2) [OF assms(1) SGNHT assms(2)] obtain xi where xi: "xi_vals b ! i = Scalar xi" ..
  from SGNHT_update_single_facts [OF aligned_wf_q [OF assms(1,2)] v(2) v(1),
      of lr alpha tune_rate "t + 1" "d i" xi "dl (q_vals b) i"]
  show ?thesis
    unfolding evaluate_SGNHT [OF SGNHT assms(1,2)] xi using SGNHT by auto
qed

lemma evaluate_fits:
  assumes "aligned b" and "i < length (q_vals b)" and "evaluate dl d t b i = Inr r"
  shows "fits (alg b) (fst r)"
proof (cases "\<exists>lr alpha beta. alg b = SGHMC lr alpha beta 0")
  case True
  then obtain lr alpha beta where a: "alg b = SGHMC lr alpha beta 0" by blast
  from assms(3) show ?thesis
    unfolding evaluate_SGHMC [OF a assms(1,2)] by (simp add: SGHMC_update_single_zero)
next
  case False
  then have "\<And>lr alpha beta. alg b \<noteq> SGHMC lr alpha beta 0" by blast
  from evaluate_succeeds [OF assms(1,2) this, of dl d t] assms(3) show ?thesis by auto
qed

text \<open>The variables a run starts from, once the counter is incremented.\<close>

lemma fst_SGHMC_update [simp]:
  "fst (SGHMC_update lr alpha beta n t d qs vs gf) = t + 1"
  by (simp add: SGHMC_update_def Let_def)

lemma fst_SGNHT_update [simp]:
  "fst (SGNHT_update lr alpha tune_rate t d qs vs xis gf) = t + 1"
  by (simp add: SGNHT_update_def Let_def)

lemma run_sample_eq:
  "run_sample dl d sch b =
     (case run_schedule (evaluate dl d (t_val b)) sch (replicate (length (q_vals b)) Waiting)
             (b\<lparr>t_val := (case alg b of SGLD lr \<Rightarrow> t_val b | _ \<Rightarrow> t_val b + 1)\<rparr>) of
        (b', Inl e) \<Rightarrow> (b', Inl e)
      | (b', Inr ps) \<Rightarrow> (b', Inr (fetched (latent_k b) (results ps))))"
  by (cases "alg b") (simp_all add: run_sample_def Let_def)

lemma fst_run_sample:
  "fst (run_sample dl d sch b) =
     fst (run_schedule (evaluate dl d (t_val b)) sch (replicate (length (q_vals b)) Waiting)
            (b\<lparr>t_val := (case alg b of SGLD lr \<Rightarrow> t_val b | _ \<Rightarrow> t_val b + 1)\<rparr>))"
  by (simp add: run_sample_eq split: prod.splits sum.splits)

lemma aligned_t_val [simp]: "aligned (b\<lparr>t_val := t\<rparr>) = aligned b"
  by (cases "alg b") (simp_all add: aligned_def)

lemma own_t_val [simp]: "own (b\<lparr>t_val := t\<rparr>) i = own b i"
  by (simp add: own_def)

lemma run_sample_aligned:
  assumes "aligned b"
  shows "aligned (fst (run_sample dl d sch b))"
  unfolding fst_run_sample
proof (rule run_schedule_aligned [where a = "alg b"])
  show "fits (alg b) (fst r)"
    if "aligned c" "alg c = alg b" "i < length (q_vals c)" "evaluate dl d (t_val b) c i = Inr r"
    for c i r
    using evaluate_fits [OF that(1,3,4)] that(2) by simp
qed (simp_all add: assms list_all_iff)

lemma run_steps_aligned: "aligned b \<Longrightarrow> aligned (run_steps dl ds b)"
  by (induction ds arbitrary: b) (auto simp: run_sample_aligned)

lemma run_sample_valid:
  assumes "aligned b" and "valid_schedule (length (q_vals b)) sch"
    and "\<And>lr alpha beta. alg b \<noteq> SGHMC lr alpha beta 0"
  shows "\<exists>b' rs. run_sample dl d sch b = (b', Inr (fetched (latent_k b) rs)) \<and>
           length rs = length (q_vals b) \<and> aligned b' \<and> alg b' = alg b \<and>
           latent_k b' = latent_k b \<and> length (q_vals b') = length (q_vals b) \<and>
           t_val b' = (case alg b of SGLD lr \<Rightarrow> t_val b | _ \<Rightarrow> t_val b + 1) \<and>
           (\<forall>i<length (q_vals b). \<exists>bi.
              aligned bi \<and> alg bi = alg b \<and> length (q_vals bi) = length (q_vals b) \<and>
              own bi i = own b i \<and> evaluate dl d (t_val b) bi i = Inr (rs ! i) \<and>
              own b' i = applied (fst (rs ! i)) (own b i))"
proof -
  let ?n = "length (q_vals b)"
  let ?b1 = "b\<lparr>t_val := (case alg b of SGLD lr \<Rightarrow> t_val b | _ \<Rightarrow> t_val b + 1)\<rparr>"
  let ?ev = "evaluate dl d (t_val b)"
  have ev: "\<exists>r. ?ev c i = Inr r \<and> fits (alg ?b1) (fst r)"
    if "aligned c" "same_frame ?b1 c" "i < ?n" for c i
  proof -
    from that(2) have c: "alg c = alg b" "length (q_vals c) = ?n"
      by (simp_all add: same_frame_def)
    with assms(3) have "\<And>lr alpha beta. alg c \<noteq> SGHMC lr alpha beta 0" by simp
    from evaluate_succeeds [OF that(1) _ this, of i dl d "t_val b"] that(3) c
    show ?thesis by simp
  qed
  have ops: "list_all (\<lambda>op. op_latent op < ?n) sch"
    using assms(2) by (simp add: valid_schedule_def)
  have start: "\<forall>i<?n. on_track ?ev ?b1 sch (replicate ?n Waiting) ?b1 i"
    using valid_schedule_start [OF assms(2)] by blast
  from run_schedule_valid [of ?b1 ?n ?ev "replicate ?n Waiting" ?b1 sch, OF ev _ _ _ ops start]
    assms(1)
  obtain b' ps' where
    run: "run_schedule ?ev sch (replicate ?n Waiting) ?b1 = (b', Inr ps')"
    and b': "aligned b'" "same_frame ?b1 b'" and lp: "length ps' = ?n"
    and each: "\<forall>i<?n. \<exists>r. ps' ! i = Assigned r \<and> computed_at ?ev ?b1 i r \<and>
                          own b' i = applied (fst r) (own ?b1 i)"
    by auto
  let ?rs = "results ps'"
  have "list_all (\<lambda>p. \<exists>r. p = Assigned r) ps'"
    unfolding list_all_length lp using each by blast
  from results_Assigned [OF this] have ps': "map Assigned ?rs = ps'" .
  then have lr: "length ?rs = ?n"
    using lp length_map [of Assigned ?rs] by simp
  have nth: "ps' ! i = Assigned (?rs ! i)" if "i < ?n" for i
    using that lr nth_map [of i ?rs Assigned] ps' by simp
  have "\<exists>bi. aligned bi \<and> alg bi = alg b \<and> length (q_vals bi) = ?n \<and>
              own bi i = own b i \<and> ?ev bi i = Inr (?rs ! i) \<and>
              own b' i = applied (fst (?rs ! i)) (own b i)"
    if i: "i < ?n" for i
  proof -
    from each i obtain r where r: "ps' ! i = Assigned r" "computed_at ?ev ?b1 i r"
      "own b' i = applied (fst r) (own ?b1 i)"
      by blast
    from r(1) nth [OF i] have "r = ?rs ! i" by simp
    with r have "computed_at ?ev ?b1 i (?rs ! i)"
      and o: "own b' i = applied (fst (?rs ! i)) (own ?b1 i)"
      by simp_all
    then obtain bi where "aligned bi" "same_frame ?b1 bi" "own bi i = own ?b1 i"
      "?ev bi i = Inr (?rs ! i)"
      by (auto simp: computed_at_def)
    with o show ?thesis by (auto simp: same_frame_def)
  qed
  moreover have "run_sample dl d sch b = (b', Inr (fetched (latent_k b) ?rs))"
    by (simp add: run_sample_eq run)
  moreover from b'(2) have "alg b' = alg b" "latent_k b' = latent_k b"
    "length (q_vals b') = ?n"
    "t_val b' = (case alg b of SGLD lr \<Rightarrow> t_val b | _ \<Rightarrow> t_val b + 1)"
    by (simp_all add: same_frame_def)
  ultimately show ?thesis using lr b'(1) by blast
qed

lemma own_q:
  assumes "own c i = own b i" and "length (q_vals c) = length (q_vals b)" and "i < length (q_vals b)"
  shows "q_vals c ! i = q_vals b ! i"
  using assms by (simp add: own_def var_at_def)

lemma own_v:
  assumes "own c i = own b i" and "i < length (v_vals c)" and "i < length (v_vals b)"
  shows "v_vals c ! i = v_vals b ! i"
  using assms by (simp add: own_def var_at_def)

lemma own_xi:
  assumes "own c i = own b i" and "i < length (xi_vals c)" and "i < length (xi_vals b)"
  shows "xi_vals c ! i = xi_vals b ! i"
  using assms by (simp add: own_def var_at_def)

lemma applied_q:
  assumes "own b' i = applied u (own b i)" and "i < length (q_vals b')" and "i < length (q_vals b)"
  shows "q_vals b' ! i = op_q u (q_vals b ! i)"
  using assms by (simp add: own_def var_at_def)

lemma applied_v:
  assumes "own b' i = applied u (own b i)" and "i < length (v_vals b')" and "i < length (v_vals b)"
  shows "v_vals b' ! i = op_v u (v_vals b ! i)"
  using assms by (simp add: own_def var_at_def)

lemma applied_xi:
  assumes "own b' i = applied u (own b i)" and "i < length (xi_vals b')" and "i < length (xi_vals b)"
  shows "xi_vals b' ! i = op_xi u (xi_vals b ! i)"
  using assms by (simp add: own_def var_at_def)

text \<open>
  C8. A run of the SGLD update, in whatever order the executor takes, gives every latent
  the value \<open>q + 0.5 * lr * g + noise\<close>, entry by entry: \<open>q\<close> is the latent's value
  before the run, the noise is a Normal(0, \<open>lr\<close>) draw, and \<open>g\<close> is the value of the
  gradient tensor, the derivative of the log-joint at the values \<open>seen\<close> that the
  variables hold when the latent's operation runs (its own is the one before the run).
  The value is assigned to the variable and reported under the latent's key, without
  diagnostics. With learning rate 0 every latent keeps its value, whatever the draws.
  The learning rate, being a variance, is not negative.
\<close>

theorem SGLD_step_new_q:
  assumes "alg b = SGLD lr" and "aligned b" and "0 \<le> lr"
    and "valid_schedule (length (q_vals b)) sch"
  shows "\<exists>b' outs. run_sample dl d sch b = (b', Inr outs) \<and>
           length outs = length (q_vals b) \<and> length (q_vals b') = length (q_vals b) \<and>
           (\<forall>i<length (q_vals b). \<exists>seen.
              length seen = length (q_vals b) \<and> seen ! i = q_vals b ! i \<and>
              outs ! i = (latent_k b ! i, q_vals b' ! i, NoInfo) \<and>
              shape (q_vals b' ! i) = shape (q_vals b ! i) \<and>
              elems (q_vals b' ! i) =
                map (\<lambda>j. elems (q_vals b ! i) ! j + 0.5 * lr * dl seen i j
                          + normal_entry (d i Noise) lr j)
                  [0..<length (elems (q_vals b ! i))]) \<and>
           (lr = 0 \<longrightarrow> q_vals b' = q_vals b)"
proof -
  let ?qs = "q_vals b"
  have no0: "\<And>lr' alpha beta. alg b \<noteq> SGHMC lr' alpha beta 0"
    using assms(1) by simp
  from run_sample_valid [OF assms(2,4) no0, of dl d] obtain b' rs where
    run: "run_sample dl d sch b = (b', Inr (fetched (latent_k b) rs))"
    and lr: "length rs = length ?qs" and lq: "length (q_vals b') = length ?qs"
    and each: "\<forall>i<length ?qs. \<exists>bi.
        aligned bi \<and> alg bi = alg b \<and> length (q_vals bi) = length ?qs \<and>
        own bi i = own b i \<and> evaluate dl d (t_val b) bi i = Inr (rs ! i) \<and>
        own b' i = applied (fst (rs ! i)) (own b i)"
    by blast
  let ?outs = "fetched (latent_k b) rs"
  have len: "length (latent_k b) = length ?qs"
    using assms(2) by (simp add: aligned_def)
  have one: "\<exists>seen. length seen = length ?qs \<and> seen ! i = ?qs ! i \<and>
      ?outs ! i = (latent_k b ! i, q_vals b' ! i, NoInfo) \<and>
      shape (q_vals b' ! i) = shape (?qs ! i) \<and> wf_tensor (q_vals b' ! i) \<and>
      elems (q_vals b' ! i) =
        map (\<lambda>j. elems (?qs ! i) ! j + 0.5 * lr * dl seen i j + normal_entry (d i Noise) lr j)
          [0..<length (elems (?qs ! i))]"
    if i: "i < length ?qs" for i
  proof -
    from each i obtain bi where bi: "aligned bi" "alg bi = alg b"
      "length (q_vals bi) = length ?qs" "own bi i = own b i"
      and ev: "evaluate dl d (t_val b) bi i = Inr (rs ! i)"
      and ap: "own b' i = applied (fst (rs ! i)) (own b i)"
      by blast
    have qi: "q_vals bi ! i = ?qs ! i"
      using own_q [OF bi(4,3) i] .
    have r: "rs ! i = SGLD_update_single lr (d i) (?qs ! i)
                        (tensor_like (?qs ! i) (dl (q_vals bi) i))"
      using evaluate_SGLD [of bi lr i dl d "t_val b"] bi(2,3) assms(1) i ev qi by simp
    from SGLD_update_single_facts [OF aligned_wf_q [OF assms(2) i], of lr "d i" "dl (q_vals bi) i"]
    obtain new_q where
      nq: "rs ! i = (Assign_q new_q, new_q, NoInfo)"
      and f: "shape new_q = shape (?qs ! i)" "wf_tensor new_q"
        "elems new_q = map (\<lambda>j. elems (?qs ! i) ! j + 0.5 * lr * dl (q_vals bi) i j
                                + normal_entry (d i Noise) lr j) [0..<length (elems (?qs ! i))]"
      unfolding r by blast
    have q': "q_vals b' ! i = new_q"
      using applied_q [OF ap] i lq nq by simp
    have o: "?outs ! i = (latent_k b ! i, new_q, NoInfo)"
      using i len lr nq by (simp add: nth_fetched)
    from bi(3) qi o f show ?thesis unfolding q' by blast
  qed
  have zero: "q_vals b' = ?qs" if z: "lr = 0"
  proof (rule nth_equalityI [OF lq])
    fix i assume "i < length (q_vals b')"
    with lq have i: "i < length ?qs" by simp
    from one [OF i] z have
      "shape (q_vals b' ! i) = shape (?qs ! i)" "wf_tensor (q_vals b' ! i)"
      "elems (q_vals b' ! i) = map (\<lambda>j. elems (?qs ! i) ! j) [0..<length (elems (?qs ! i))]"
      by (auto simp: normal_entry_def)
    then show "q_vals b' ! i = ?qs ! i"
      using aligned_wf_q [OF assms(2) i] by (intro tensor_eqI) (simp_all add: map_nth)
  qed
  have lo: "length ?outs = length ?qs"
    using len lr by (simp add: fetched_def)
  from run lo lq one zero show ?thesis by blast
qed

theorem SGLD_step_new_q_witness:
  "alg \<lparr>alg = SGLD 4, latent_k = [''a'', ''b''], t_val = - 1, q_vals = [Scalar 1, Scalar 2],
         v_vals = [], xi_vals = []\<rparr> = SGLD 4 \<and>
   aligned \<lparr>alg = SGLD 4, latent_k = [''a'', ''b''], t_val = - 1, q_vals = [Scalar 1, Scalar 2],
         v_vals = [], xi_vals = []\<rparr> \<and>
   (0 :: real) \<le> 4 \<and>
   valid_schedule (length [Scalar 1, Scalar 2]) [Compute 0, Assign 0, Compute 1, Assign 1] \<and>
   (\<exists>b' outs.
      run_sample
       (\<lambda>qs i j. 5 * (case qs of [a, b] \<Rightarrow> (if i = 0 then sum_list (elems b)
                                                else sum_list (elems a)) | _ \<Rightarrow> 0))
       (\<lambda>i op j. 1) [Compute 0, Assign 0, Compute 1, Assign 1]
       \<lparr>alg = SGLD 4, latent_k = [''a'', ''b''], t_val = - 1, q_vals = [Scalar 1, Scalar 2],
         v_vals = [], xi_vals = []\<rparr> = (b', Inr outs) \<and>
      length outs = 2 \<and> q_vals b' = [Scalar 23, Scalar 234] \<and>
      outs = [(''a'', Scalar 23, NoInfo), (''b'', Scalar 234, NoInfo)]) \<and>
   alg \<lparr>alg = SGLD 0, latent_k = [''a'', ''b''], t_val = - 1, q_vals = [Scalar 1, Scalar 2],
         v_vals = [], xi_vals = []\<rparr> = SGLD 0 \<and>
   aligned \<lparr>alg = SGLD 0, latent_k = [''a'', ''b''], t_val = - 1, q_vals = [Scalar 1, Scalar 2],
         v_vals = [], xi_vals = []\<rparr> \<and>
   (0 :: real) \<le> 0 \<and>
   (\<exists>b' outs.
      run_sample
       (\<lambda>qs i j. 5 * (case qs of [a, b] \<Rightarrow> (if i = 0 then sum_list (elems b)
                                                else sum_list (elems a)) | _ \<Rightarrow> 0))
       (\<lambda>i op j. 1) [Compute 0, Assign 0, Compute 1, Assign 1]
       \<lparr>alg = SGLD 0, latent_k = [''a'', ''b''], t_val = - 1, q_vals = [Scalar 1, Scalar 2],
         v_vals = [], xi_vals = []\<rparr> = (b', Inr outs) \<and>
      q_vals b' = [Scalar 1, Scalar 2])"
proof -
  let ?b = "\<lparr>alg = SGLD 4, latent_k = [''a'', ''b''], t_val = - 1, q_vals = [Scalar 1, Scalar 2],
         v_vals = [], xi_vals = []\<rparr>"
  let ?dl = "\<lambda>qs i j. 5 * (case qs of [a, b] \<Rightarrow> (if i = (0 :: nat) then sum_list (elems b)
                                                else sum_list (elems a)) | _ \<Rightarrow> 0)"
  let ?d = "(\<lambda>i op j. 1) :: draws"
  let ?sch = "[Compute 0, Assign 0, Compute 1, Assign 1]"
  let ?b' = "\<lparr>alg = SGLD 4, latent_k = [''a'', ''b''], t_val = - 1,
          q_vals = [Scalar 23, Scalar 234], v_vals = [], xi_vals = []\<rparr>"
  have h1: "alg ?b = SGLD 4" by simp
  have h2: "aligned ?b" by (simp add: aligned_def)
  have h3: "(0 :: real) \<le> 4" by simp
  have h4: "valid_schedule (length (q_vals ?b)) ?sch"
    by (simp add: valid_schedule_def upt_rec numeral_2_eq_2)
  have run: "run_sample ?dl ?d ?sch ?b
     = (?b', Inr [(''a'', Scalar 23, NoInfo), (''b'', Scalar 234, NoInfo)])"
    by (simp add: run_sample_def evaluate_def SGLD_update_def SGLD_update_single_def
        tf_gradients_def random_normal_def tf_add_def tf_mul_def tf_sqrt_def assign_def
        results_def fetched_def Let_def upt_rec numeral_2_eq_2)
  from SGLD_step_new_q [OF h1 h2 h3 h4, of ?dl ?d] obtain b' outs where
    r: "run_sample ?dl ?d ?sch ?b = (b', Inr outs)"
    and l: "length outs = length (q_vals ?b)"
    by blast
  from r run have "q_vals b' = [Scalar 23, Scalar 234]"
    "outs = [(''a'', Scalar 23, NoInfo), (''b'', Scalar 234, NoInfo)]"
    by auto
  with r l have "\<exists>b' outs. run_sample ?dl ?d ?sch ?b = (b', Inr outs) \<and>
      length outs = 2 \<and> q_vals b' = [Scalar 23, Scalar 234] \<and>
      outs = [(''a'', Scalar 23, NoInfo), (''b'', Scalar 234, NoInfo)]"
    by auto
  then have first: "\<exists>b' outs. run_sample ?dl ?d ?sch ?b = (b', Inr outs) \<and>
      length outs = 2 \<and> q_vals b' = [Scalar 23, Scalar 234] \<and>
      outs = [(''a'', Scalar 23, NoInfo), (''b'', Scalar 234, NoInfo)]" .
  let ?b0 = "\<lparr>alg = SGLD 0, latent_k = [''a'', ''b''], t_val = - 1, q_vals = [Scalar 1, Scalar 2],
         v_vals = [], xi_vals = []\<rparr>"
  have g1: "alg ?b0 = SGLD 0" by simp
  have g2: "aligned ?b0" by (simp add: aligned_def)
  have g3: "(0 :: real) \<le> 0" by simp
  have g4: "valid_schedule (length (q_vals ?b0)) ?sch"
    by (simp add: valid_schedule_def upt_rec numeral_2_eq_2)
  from SGLD_step_new_q [OF g1 g2 g3 g4, of ?dl ?d] obtain b0' outs0 where
    "run_sample ?dl ?d ?sch ?b0 = (b0', Inr outs0)"
    and "(0 :: real) = 0 \<longrightarrow> q_vals b0' = q_vals ?b0"
    by blast
  then have second: "\<exists>b' outs. run_sample ?dl ?d ?sch ?b0 = (b', Inr outs) \<and>
      q_vals b' = [Scalar 1, Scalar 2]"
    by simp
  from h1 h2 h3 h4 first g1 g2 g3 second show ?thesis by simp
qed

text \<open>
  C6. A run of the SGHMC update with a positive resample interval \<open>n\<close>, in whatever order
  the executor takes, increments the counter and then, for every latent: \<open>old_v\<close> is a
  Normal(0, \<open>lr\<close>) draw of the velocity's shape when the incremented counter is a multiple
  of \<open>n\<close>, and the velocity before the run otherwise; the new velocity is
  \<open>(1 - alpha) * old_v + lr * g + noise\<close> with Normal(0, \<open>2 * (alpha - beta) * lr\<close>)
  noise, where \<open>g\<close> is the value of the gradient tensor, the derivative of the log-joint
  at the values \<open>seen\<close> that the variables hold when the latent's operation runs; the new
  value is \<open>q + new_v\<close> with the value \<open>q\<close> before the run; both are assigned, and the
  diagnostic \<open>mean_k\<close> of a latent with an entry is the mean of the squared entries of
  the new velocity. The two variances are not negative.
\<close>

theorem SGHMC_step:
  assumes "alg b = SGHMC lr alpha beta n" and "0 < sint n" and "aligned b"
    and "0 \<le> lr" and "0 \<le> 2 * (alpha - beta) * lr"
    and "valid_schedule (length (q_vals b)) sch"
  shows "\<exists>b' outs. run_sample dl d sch b = (b', Inr outs) \<and> t_val b' = t_val b + 1 \<and>
           length outs = length (q_vals b) \<and> length (q_vals b') = length (q_vals b) \<and>
           length (v_vals b') = length (q_vals b) \<and>
           (\<forall>i<length (q_vals b). \<exists>old_v seen.
              length seen = length (q_vals b) \<and> seen ! i = q_vals b ! i \<and>
              (if sint (t_val b + 1) mod sint n = 0
               then shape old_v = shape (v_vals b ! i) \<and>
                    elems old_v = map (normal_entry (d i Momentum) lr) [0..<length (elems (v_vals b ! i))]
               else old_v = v_vals b ! i) \<and>
              shape (v_vals b' ! i) = shape (q_vals b ! i) \<and>
              elems (v_vals b' ! i) =
                map (\<lambda>j. (1 - alpha) * elems old_v ! j + lr * dl seen i j
                          + normal_entry (d i Noise) (2 * (alpha - beta) * lr) j)
                  [0..<length (elems (q_vals b ! i))] \<and>
              shape (q_vals b' ! i) = shape (q_vals b ! i) \<and>
              elems (q_vals b' ! i) =
                map (\<lambda>j. elems (q_vals b ! i) ! j + elems (v_vals b' ! i) ! j)
                  [0..<length (elems (q_vals b ! i))] \<and>
              fst (outs ! i) = latent_k b ! i \<and> fst (snd (outs ! i)) = q_vals b' ! i \<and>
              (elems (q_vals b ! i) \<noteq> [] \<longrightarrow>
                 outs ! i = (latent_k b ! i, q_vals b' ! i,
                             Mean_k (Scalar (mean_of_squares (elems (v_vals b' ! i)))))))"
proof -
  let ?qs = "q_vals b" and ?vs = "v_vals b"
  from assms(2) have n0: "n \<noteq> 0" by auto
  then have no0: "\<And>lr' alpha' beta'. alg b \<noteq> SGHMC lr' alpha' beta' 0"
    using assms(1) by simp
  from run_sample_valid [OF assms(3,6) no0, of dl d] assms(1) obtain b' rs where
    run: "run_sample dl d sch b = (b', Inr (fetched (latent_k b) rs))"
    and lr: "length rs = length ?qs" and al': "aligned b'" and a': "alg b' = alg b"
    and lq: "length (q_vals b') = length ?qs" and t: "t_val b' = t_val b + 1"
    and each: "\<forall>i<length ?qs. \<exists>bi.
        aligned bi \<and> alg bi = alg b \<and> length (q_vals bi) = length ?qs \<and>
        own bi i = own b i \<and> evaluate dl d (t_val b) bi i = Inr (rs ! i) \<and>
        own b' i = applied (fst (rs ! i)) (own b i)"
    by auto
  let ?outs = "fetched (latent_k b) rs"
  have lv: "length ?vs = length ?qs"
    using aligned_vs(1) [OF assms(3)] assms(1) by simp
  have lv': "length (v_vals b') = length ?qs"
    using aligned_vs(1) [OF al'] a' assms(1) lq by simp
  have lk: "length (latent_k b) = length ?qs"
    using assms(3) by (simp add: aligned_def)
  have lo: "length ?outs = length ?qs" using lk lr by (simp add: fetched_def)
  have one: "\<exists>old_v seen.
      length seen = length ?qs \<and> seen ! i = ?qs ! i \<and>
      (if sint (t_val b + 1) mod sint n = 0
       then shape old_v = shape (?vs ! i) \<and>
            elems old_v = map (normal_entry (d i Momentum) lr) [0..<length (elems (?vs ! i))]
       else old_v = ?vs ! i) \<and>
      shape (v_vals b' ! i) = shape (?qs ! i) \<and>
      elems (v_vals b' ! i) =
        map (\<lambda>j. (1 - alpha) * elems old_v ! j + lr * dl seen i j
                  + normal_entry (d i Noise) (2 * (alpha - beta) * lr) j)
          [0..<length (elems (?qs ! i))] \<and>
      shape (q_vals b' ! i) = shape (?qs ! i) \<and>
      elems (q_vals b' ! i) =
        map (\<lambda>j. elems (?qs ! i) ! j + elems (v_vals b' ! i) ! j) [0..<length (elems (?qs ! i))] \<and>
      fst (?outs ! i) = latent_k b ! i \<and> fst (snd (?outs ! i)) = q_vals b' ! i \<and>
      (elems (?qs ! i) \<noteq> [] \<longrightarrow>
         ?outs ! i = (latent_k b ! i, q_vals b' ! i,
                      Mean_k (Scalar (mean_of_squares (elems (v_vals b' ! i))))))"
    if i: "i < length ?qs" for i
  proof -
    from each i obtain bi where bi: "aligned bi" "alg bi = alg b"
      "length (q_vals bi) = length ?qs" "own bi i = own b i"
      and ev: "evaluate dl d (t_val b) bi i = Inr (rs ! i)"
      and ap: "own b' i = applied (fst (rs ! i)) (own b i)"
      by blast
    have abi: "alg bi = SGHMC lr alpha beta n" using bi(2) assms(1) by simp
    have lvi: "length (v_vals bi) = length ?qs"
      using aligned_vs(1) [OF bi(1)] abi bi(3) by simp
    have qi: "q_vals bi ! i = ?qs ! i"
      using own_q [OF bi(4,3) i] .
    have vi: "v_vals bi ! i = ?vs ! i"
      using own_v [OF bi(4)] i lvi lv by simp
    have r: "SGHMC_update_single lr alpha beta n (t_val b + 1) (d i) (?qs ! i) (?vs ! i)
               (tensor_like (?qs ! i) (dl (q_vals bi) i)) = Inr (rs ! i)"
      using evaluate_SGHMC [OF abi bi(1), of i dl d "t_val b"] bi(3) i ev qi vi by simp
    have v: "shape (?vs ! i) = shape (?qs ! i)" "wf_tensor (?vs ! i)"
      using aligned_vs(2) [OF assms(3) _ i] assms(1) by simp_all
    from SGHMC_update_single_facts [OF aligned_wf_q [OF assms(3) i] v(2) v(1) n0,
        of lr alpha beta "t_val b + 1" "d i" "dl (q_vals bi) i"]
    obtain old_v new_v new_q where
      ri: "rs ! i = (Assign_q_v new_q new_v, new_q, Mean_k (Scalar (mean_of_squares (elems new_v))))"
      and rest: "(if sint (t_val b + 1) mod sint n = 0
         then shape old_v = shape (?vs ! i) \<and>
              elems old_v = map (normal_entry (d i Momentum) lr) [0..<length (elems (?vs ! i))]
         else old_v = ?vs ! i)"
        "shape new_v = shape (?qs ! i)"
        "elems new_v = map (\<lambda>j. (1 - alpha) * elems old_v ! j + lr * dl (q_vals bi) i j
                                + normal_entry (d i Noise) (2 * (alpha - beta) * lr) j)
                        [0..<length (elems (?qs ! i))]"
        "shape new_q = shape (?qs ! i)"
        "elems new_q = map (\<lambda>j. elems (?qs ! i) ! j + elems new_v ! j) [0..<length (elems (?qs ! i))]"
      unfolding r tf_mod_zero_iff [OF assms(2)] by auto
    have q': "q_vals b' ! i = new_q"
      using applied_q [OF ap] i lq ri by simp
    have v': "v_vals b' ! i = new_v"
      using applied_v [OF ap] i lv lv' ri by simp
    have o: "?outs ! i = (latent_k b ! i, new_q, Mean_k (Scalar (mean_of_squares (elems new_v))))"
      using i lk lr ri by (simp add: nth_fetched)
    from o have o1: "fst (?outs ! i) = latent_k b ! i" "fst (snd (?outs ! i)) = new_q"
      by simp_all
    from bi(3) qi rest o o1 show ?thesis unfolding q' v' by blast
  qed
  from run t lo lq lv' one show ?thesis by blast
qed

theorem SGHMC_step_witness:
  "alg \<lparr>alg = SGHMC 4 (1/2) 0 20, latent_k = [''a'', ''b''], t_val = - 1,
         q_vals = [Scalar 1, Scalar 2], v_vals = [Scalar 0, Scalar 0], xi_vals = []\<rparr>
     = SGHMC 4 (1/2) 0 20 \<and>
   0 < sint (20 :: 32 word) \<and>
   aligned \<lparr>alg = SGHMC 4 (1/2) 0 20, latent_k = [''a'', ''b''], t_val = - 1,
         q_vals = [Scalar 1, Scalar 2], v_vals = [Scalar 0, Scalar 0], xi_vals = []\<rparr> \<and>
   (0 :: real) \<le> 4 \<and> (0 :: real) \<le> 2 * (1/2 - 0) * 4 \<and>
   valid_schedule (length [Scalar 1, Scalar 2]) [Compute 0, Assign 0, Compute 1, Assign 1] \<and>
   (\<exists>b' outs.
      run_sample
       (\<lambda>qs i j. 5 * (case qs of [a, b] \<Rightarrow> (if i = 0 then sum_list (elems b)
                                                else sum_list (elems a)) | _ \<Rightarrow> 0))
       (\<lambda>i op j. 1) [Compute 0, Assign 0, Compute 1, Assign 1]
       \<lparr>alg = SGHMC 4 (1/2) 0 20, latent_k = [''a'', ''b''], t_val = - 1,
         q_vals = [Scalar 1, Scalar 2], v_vals = [Scalar 0, Scalar 0], xi_vals = []\<rparr>
        = (b', Inr outs) \<and>
      t_val b' = 0 \<and> q_vals b' = [Scalar 44, Scalar 885] \<and> v_vals b' = [Scalar 43, Scalar 883] \<and>
      outs = [(''a'', Scalar 44, Mean_k (Scalar 1849)), (''b'', Scalar 885, Mean_k (Scalar 779689))])"
proof -
  let ?b = "\<lparr>alg = SGHMC 4 (1/2) 0 20, latent_k = [''a'', ''b''], t_val = - 1,
         q_vals = [Scalar 1, Scalar 2], v_vals = [Scalar 0, Scalar 0], xi_vals = []\<rparr>"
  let ?dl = "\<lambda>qs i j. 5 * (case qs of [a, b] \<Rightarrow> (if i = (0 :: nat) then sum_list (elems b)
                                                else sum_list (elems a)) | _ \<Rightarrow> 0)"
  let ?d = "(\<lambda>i op j. 1) :: draws"
  let ?sch = "[Compute 0, Assign 0, Compute 1, Assign 1]"
  let ?b' = "\<lparr>alg = SGHMC 4 (1/2) 0 20, latent_k = [''a'', ''b''], t_val = 0,
         q_vals = [Scalar 44, Scalar 885], v_vals = [Scalar 43, Scalar 883], xi_vals = []\<rparr>"
  let ?outs = "[(''a'', Scalar 44, Mean_k (Scalar 1849)), (''b'', Scalar 885, Mean_k (Scalar 779689))]"
  have h1: "alg ?b = SGHMC 4 (1/2) 0 20" by simp
  have h2: "0 < sint (20 :: 32 word)" by simp
  have h3: "aligned ?b" by (simp add: aligned_def)
  have h4: "(0 :: real) \<le> 4" by simp
  have h5: "(0 :: real) \<le> 2 * (1/2 - 0) * 4" by simp
  have h6: "valid_schedule (length (q_vals ?b)) ?sch"
    by (simp add: valid_schedule_def)
  have run: "run_sample ?dl ?d ?sch ?b = (?b', Inr ?outs)"
    by (simp add: run_sample_def evaluate_def SGHMC_update_def SGHMC_update_single_def
        tf_gradients_def random_normal_def tf_add_def tf_mul_def tf_sub_def tf_sqrt_def
        tf_square_def reduce_mean_def tf_mod_def assign_def results_def fetched_def Let_def)
  from SGHMC_step [OF h1 h2 h3 h4 h5 h6, of ?dl ?d] obtain b' outs where
    r: "run_sample ?dl ?d ?sch ?b = (b', Inr outs)" and t: "t_val b' = t_val ?b + 1"
    by blast
  from r run have "q_vals b' = [Scalar 44, Scalar 885]" "v_vals b' = [Scalar 43, Scalar 883]"
    "outs = ?outs"
    by auto
  with r t have "\<exists>b' outs. run_sample ?dl ?d ?sch ?b = (b', Inr outs) \<and>
      t_val b' = 0 \<and> q_vals b' = [Scalar 44, Scalar 885] \<and> v_vals b' = [Scalar 43, Scalar 883] \<and>
      outs = ?outs"
    by auto
  with h1 h2 h3 h4 h5 h6 show ?thesis by simp
qed

text \<open>
  C1. An SGHMC sampler built with \<^verbatim>\<open>n_iter_resample_v=None\<close> is the one built with 0.
  Bound to one scalar latent, its first run increments the counter and then computes
  \<^verbatim>\<open>tf.mod(new_t, 0)\<close> for the predicate of the conditional: the run fails with the
  kernel's division by zero, and no latent or velocity is assigned.
\<close>

theorem SGHMC_zero_interval_fails:
  "SGHMC_init (1/10) (1/4) 0 None = SGHMC_init (1/10) (1/4) 0 (Some 0) \<and>
   snd (sample (SGHMC_init (1/10) (1/4) 0 None) LogJointFn [] [(''q'', Variable (Scalar 0))])
     = Inr \<lparr>alg = SGHMC (1/10) (1/4) 0 0, latent_k = [''q''], t_val = - 1, q_vals = [Scalar 0],
             v_vals = [Scalar 0], xi_vals = []\<rparr> \<and>
   tf_mod 0 0 = Inl (InvalidArgumentError ''Integer division by zero'') \<and>
   valid_schedule 1 [Compute 0, Assign 0] \<and>
   run_sample dl d [Compute 0, Assign 0]
       \<lparr>alg = SGHMC (1/10) (1/4) 0 0, latent_k = [''q''], t_val = - 1, q_vals = [Scalar 0],
             v_vals = [Scalar 0], xi_vals = []\<rparr>
     = (\<lparr>alg = SGHMC (1/10) (1/4) 0 0, latent_k = [''q''], t_val = 0, q_vals = [Scalar 0],
             v_vals = [Scalar 0], xi_vals = []\<rparr>,
        Inl (InvalidArgumentError ''Integer division by zero''))"
  by (simp add: sample_def zip_star_def SGHMC_init_def SGMCMC_init_def define_variables_def
      SGHMC_define_variables_def zeros_like_def the_list_def run_sample_def evaluate_def
      SGHMC_update_def SGHMC_update_single_def tf_mod_def tf_gradients_def Let_def
      valid_schedule_def)

subsection \<open>The counter over successive runs\<close>

lemma alg_run_sample [simp]: "alg (fst (run_sample dl d sch b)) = alg b"
  by (simp add: fst_run_sample run_schedule_frame)

lemma t_val_run_sample:
  "t_val (fst (run_sample dl d sch b)) = (case alg b of SGLD lr \<Rightarrow> t_val b | _ \<Rightarrow> t_val b + 1)"
  by (simp add: fst_run_sample run_schedule_frame)

lemma alg_run_steps [simp]: "alg (run_steps dl ds b) = alg b"
  by (induction ds arbitrary: b) auto

lemma t_val_run_steps:
  "t_val (run_steps dl ds b) =
     (case alg b of SGLD lr \<Rightarrow> t_val b | _ \<Rightarrow> t_val b + of_nat (length ds))"
proof (induction ds arbitrary: b)
  case Nil
  then show ?case by (simp split: algorithm.splits)
next
  case (Cons x ds)
  obtain d sch where x: "x = (d, sch)" by (cases x)
  show ?case
    by (simp add: x Cons.IH t_val_run_sample split: algorithm.splits)
qed

text \<open>
  C7, as the code has it. A run of the SGNHT update, in whatever order the executor takes,
  increments the counter and then, for every latent with its scalar thermostat variable
  \<open>xi\<close>: \<open>old_v\<close> is a Normal(0, \<open>lr\<close>) draw of the velocity's shape exactly when the
  incremented counter is 0, and the velocity before the run otherwise; the new velocity
  is \<open>(1 - xi) * old_v + lr * g + noise\<close> with Normal(0, \<open>2 * alpha * lr\<close>) noise, where
  \<open>g\<close> is the value of the gradient tensor, the derivative of the log-joint at the values
  \<open>seen\<close> that the variables hold when the latent's operation runs; the new value is
  \<open>q + new_v\<close> with the value \<open>q\<close> before the run; and for a latent with an entry
  \<open>mean_k\<close> is the mean of the squared entries of the new velocity and the new thermostat
  value is \<open>xi + tune_rate * (mean_k - lr)\<close>; all three are assigned. The two variances
  are not negative. Counted from binding, the incremented counter of the run after \<open>K\<close>
  runs is 0 exactly when \<open>2 ^ 32\<close> divides \<open>K\<close>: in the first run, and again whenever
  the \<^verbatim>\<open>int32\<close> counter has wrapped around.
\<close>

theorem SGNHT_step:
  assumes "alg b = SGNHT lr alpha tune_rate" and "aligned b"
    and "0 \<le> lr" and "0 \<le> 2 * alpha * lr"
    and "valid_schedule (length (q_vals b)) sch"
  shows "(\<exists>b' outs. run_sample dl d sch b = (b', Inr outs) \<and> t_val b' = t_val b + 1 \<and>
           length outs = length (q_vals b) \<and> length (q_vals b') = length (q_vals b) \<and>
           length (v_vals b') = length (q_vals b) \<and> length (xi_vals b') = length (q_vals b) \<and>
           (\<forall>i<length (q_vals b). \<exists>old_v xi seen.
              length seen = length (q_vals b) \<and> seen ! i = q_vals b ! i \<and>
              xi_vals b ! i = Scalar xi \<and>
              (if t_val b + 1 = 0
               then shape old_v = shape (v_vals b ! i) \<and>
                    elems old_v = map (normal_entry (d i Momentum) lr) [0..<length (elems (v_vals b ! i))]
               else old_v = v_vals b ! i) \<and>
              shape (v_vals b' ! i) = shape (q_vals b ! i) \<and>
              elems (v_vals b' ! i) =
                map (\<lambda>j. (1 - xi) * elems old_v ! j + lr * dl seen i j
                          + normal_entry (d i Noise) (2 * alpha * lr) j)
                  [0..<length (elems (q_vals b ! i))] \<and>
              shape (q_vals b' ! i) = shape (q_vals b ! i) \<and>
              elems (q_vals b' ! i) =
                map (\<lambda>j. elems (q_vals b ! i) ! j + elems (v_vals b' ! i) ! j)
                  [0..<length (elems (q_vals b ! i))] \<and>
              fst (outs ! i) = latent_k b ! i \<and> fst (snd (outs ! i)) = q_vals b' ! i \<and>
              (elems (q_vals b ! i) \<noteq> [] \<longrightarrow>
                 xi_vals b' ! i =
                   Scalar (xi + tune_rate * (mean_of_squares (elems (v_vals b' ! i)) - lr)) \<and>
                 outs ! i = (latent_k b ! i, q_vals b' ! i,
                             Mean_k_xi (Scalar (mean_of_squares (elems (v_vals b' ! i))))
                               (xi_vals b' ! i))))) \<and>
         (t_val b = - 1 \<longrightarrow>
            (\<forall>ds. t_val (run_steps dl ds b) + 1 = 0 \<longleftrightarrow> 2 ^ 32 dvd length ds))"
proof -
  let ?qs = "q_vals b" and ?vs = "v_vals b" and ?xis = "xi_vals b"
  have no0: "\<And>lr' alpha' beta'. alg b \<noteq> SGHMC lr' alpha' beta' 0"
    using assms(1) by simp
  from run_sample_valid [OF assms(2,5) no0, of dl d] assms(1) obtain b' rs where
    run: "run_sample dl d sch b = (b', Inr (fetched (latent_k b) rs))"
    and lr: "length rs = length ?qs" and al': "aligned b'" and a': "alg b' = alg b"
    and lq: "length (q_vals b') = length ?qs" and t: "t_val b' = t_val b + 1"
    and each: "\<forall>i<length ?qs. \<exists>bi.
        aligned bi \<and> alg bi = alg b \<and> length (q_vals bi) = length ?qs \<and>
        own bi i = own b i \<and> evaluate dl d (t_val b) bi i = Inr (rs ! i) \<and>
        own b' i = applied (fst (rs ! i)) (own b i)"
    by auto
  let ?outs = "fetched (latent_k b) rs"
  have lv: "length ?vs = length ?qs"
    using aligned_vs(1) [OF assms(2)] assms(1) by simp
  have lxi: "length ?xis = length ?qs"
    using aligned_xis(1) [OF assms(2,1)] .
  have ab': "alg b' = SGNHT lr alpha tune_rate" using a' assms(1) by simp
  have lv': "length (v_vals b') = length ?qs"
    using aligned_vs(1) [OF al'] ab' lq by simp
  have lxi': "length (xi_vals b') = length ?qs"
    using aligned_xis(1) [OF al' ab'] lq by simp
  have lk: "length (latent_k b) = length ?qs"
    using assms(2) by (simp add: aligned_def)
  have lo: "length ?outs = length ?qs" using lk lr by (simp add: fetched_def)
  have one: "\<exists>old_v xi seen.
      length seen = length ?qs \<and> seen ! i = ?qs ! i \<and>
      ?xis ! i = Scalar xi \<and>
      (if t_val b + 1 = 0
       then shape old_v = shape (?vs ! i) \<and>
            elems old_v = map (normal_entry (d i Momentum) lr) [0..<length (elems (?vs ! i))]
       else old_v = ?vs ! i) \<and>
      shape (v_vals b' ! i) = shape (?qs ! i) \<and>
      elems (v_vals b' ! i) =
        map (\<lambda>j. (1 - xi) * elems old_v ! j + lr * dl seen i j
                  + normal_entry (d i Noise) (2 * alpha * lr) j)
          [0..<length (elems (?qs ! i))] \<and>
      shape (q_vals b' ! i) = shape (?qs ! i) \<and>
      elems (q_vals b' ! i) =
        map (\<lambda>j. elems (?qs ! i) ! j + elems (v_vals b' ! i) ! j) [0..<length (elems (?qs ! i))] \<and>
      fst (?outs ! i) = latent_k b ! i \<and> fst (snd (?outs ! i)) = q_vals b' ! i \<and>
      (elems (?qs ! i) \<noteq> [] \<longrightarrow>
         xi_vals b' ! i = Scalar (xi + tune_rate * (mean_of_squares (elems (v_vals b' ! i)) - lr)) \<and>
         ?outs ! i = (latent_k b ! i, q_vals b' ! i,
                      Mean_k_xi (Scalar (mean_of_squares (elems (v_vals b' ! i))))
                        (xi_vals b' ! i)))"
    if i: "i < length ?qs" for i
  proof -
    from each i obtain bi where bi: "aligned bi" "alg bi = alg b"
      "length (q_vals bi) = length ?qs" "own bi i = own b i"
      and ev: "evaluate dl d (t_val b) bi i = Inr (rs ! i)"
      and ap: "own b' i = applied (fst (rs ! i)) (own b i)"
      by blast
    have abi: "alg bi = SGNHT lr alpha tune_rate" using bi(2) assms(1) by simp
    have lvi: "length (v_vals bi) = length ?qs"
      using aligned_vs(1) [OF bi(1)] abi bi(3) by simp
    have lxii: "length (xi_vals bi) = length ?qs"
      using aligned_xis(1) [OF bi(1) abi] bi(3) by simp
    have qi: "q_vals bi ! i = ?qs ! i"
      using own_q [OF bi(4,3) i] .
    have vi: "v_vals bi ! i = ?vs ! i"
      using own_v [OF bi(4)] i lvi lv by simp
    have xii: "xi_vals bi ! i = ?xis ! i"
      using own_xi [OF bi(4)] i lxii lxi by simp
    from aligned_xis(2) [OF assms(2,1) i] obtain xi where xi: "?xis ! i = Scalar xi" ..
    have r: "rs ! i = SGNHT_update_single lr alpha tune_rate (t_val b + 1) (d i) (?qs ! i) (?vs ! i)
               (Scalar xi) (tensor_like (?qs ! i) (dl (q_vals bi) i))"
      using evaluate_SGNHT [OF abi bi(1), of i dl d "t_val b"] bi(3) i ev qi vi xii xi by simp
    have v: "shape (?vs ! i) = shape (?qs ! i)" "wf_tensor (?vs ! i)"
      using aligned_vs(2) [OF assms(2) _ i] assms(1) by simp_all
    from SGNHT_update_single_facts [OF aligned_wf_q [OF assms(2) i] v(2) v(1),
        of lr alpha tune_rate "t_val b + 1" "d i" xi "dl (q_vals bi) i"]
    obtain old_v new_v new_q where
      ri: "rs ! i = (Assign_q_v_xi new_q new_v
                       (Scalar (xi + tune_rate * (mean_of_squares (elems new_v) - lr))),
                     new_q,
                     Mean_k_xi (Scalar (mean_of_squares (elems new_v)))
                       (Scalar (xi + tune_rate * (mean_of_squares (elems new_v) - lr))))"
      and rest: "(if t_val b + 1 = 0
         then shape old_v = shape (?vs ! i) \<and>
              elems old_v = map (normal_entry (d i Momentum) lr) [0..<length (elems (?vs ! i))]
         else old_v = ?vs ! i)"
        "shape new_v = shape (?qs ! i)"
        "elems new_v = map (\<lambda>j. (1 - xi) * elems old_v ! j + lr * dl (q_vals bi) i j
                                + normal_entry (d i Noise) (2 * alpha * lr) j)
                        [0..<length (elems (?qs ! i))]"
        "shape new_q = shape (?qs ! i)"
        "elems new_q = map (\<lambda>j. elems (?qs ! i) ! j + elems new_v ! j) [0..<length (elems (?qs ! i))]"
      unfolding r by blast
    have q': "q_vals b' ! i = new_q"
      using applied_q [OF ap] i lq ri by simp
    have v': "v_vals b' ! i = new_v"
      using applied_v [OF ap] i lv lv' ri by simp
    have xi': "xi_vals b' ! i = Scalar (xi + tune_rate * (mean_of_squares (elems new_v) - lr))"
      using applied_xi [OF ap] i lxi lxi' ri by simp
    have o: "?outs ! i = (latent_k b ! i, new_q,
                Mean_k_xi (Scalar (mean_of_squares (elems new_v)))
                  (Scalar (xi + tune_rate * (mean_of_squares (elems new_v) - lr))))"
      using i lk lr ri by (simp add: nth_fetched)
    from o have o1: "fst (?outs ! i) = latent_k b ! i" "fst (snd (?outs ! i)) = new_q"
      by simp_all
    from o xi' have o2: "?outs ! i = (latent_k b ! i, new_q,
        Mean_k_xi (Scalar (mean_of_squares (elems new_v))) (xi_vals b' ! i))"
      by simp
    from bi(3) qi xi rest o1 o2 xi' show ?thesis unfolding q' v' by blast
  qed
  have later: "t_val (run_steps dl ds b) + 1 = 0 \<longleftrightarrow> 2 ^ 32 dvd length ds"
    if "t_val b = - 1" for ds
    using that by (simp add: t_val_run_steps assms(1) word_of_nat_eq_0_iff)
  from run t lo lq lv' lxi' one have "\<exists>b' outs. run_sample dl d sch b = (b', Inr outs) \<and>
           t_val b' = t_val b + 1 \<and>
           length outs = length (q_vals b) \<and> length (q_vals b') = length (q_vals b) \<and>
           length (v_vals b') = length (q_vals b) \<and> length (xi_vals b') = length (q_vals b) \<and>
           (\<forall>i<length (q_vals b). \<exists>old_v xi seen.
              length seen = length (q_vals b) \<and> seen ! i = q_vals b ! i \<and>
              xi_vals b ! i = Scalar xi \<and>
              (if t_val b + 1 = 0
               then shape old_v = shape (v_vals b ! i) \<and>
                    elems old_v = map (normal_entry (d i Momentum) lr) [0..<length (elems (v_vals b ! i))]
               else old_v = v_vals b ! i) \<and>
              shape (v_vals b' ! i) = shape (q_vals b ! i) \<and>
              elems (v_vals b' ! i) =
                map (\<lambda>j. (1 - xi) * elems old_v ! j + lr * dl seen i j
                          + normal_entry (d i Noise) (2 * alpha * lr) j)
                  [0..<length (elems (q_vals b ! i))] \<and>
              shape (q_vals b' ! i) = shape (q_vals b ! i) \<and>
              elems (q_vals b' ! i) =
                map (\<lambda>j. elems (q_vals b ! i) ! j + elems (v_vals b' ! i) ! j)
                  [0..<length (elems (q_vals b ! i))] \<and>
              fst (outs ! i) = latent_k b ! i \<and> fst (snd (outs ! i)) = q_vals b' ! i \<and>
              (elems (q_vals b ! i) \<noteq> [] \<longrightarrow>
                 xi_vals b' ! i =
                   Scalar (xi + tune_rate * (mean_of_squares (elems (v_vals b' ! i)) - lr)) \<and>
                 outs ! i = (latent_k b ! i, q_vals b' ! i,
                             Mean_k_xi (Scalar (mean_of_squares (elems (v_vals b' ! i))))
                               (xi_vals b' ! i))))"
    by blast
  with later show ?thesis by blast
qed

theorem SGNHT_step_witness:
  "alg \<lparr>alg = SGNHT 4 0 1, latent_k = [''a'', ''b''], t_val = - 1, q_vals = [Scalar 1, Scalar 2],
         v_vals = [Scalar 0, Scalar 0], xi_vals = [Scalar 0, Scalar 0]\<rparr> = SGNHT 4 0 1 \<and>
   aligned \<lparr>alg = SGNHT 4 0 1, latent_k = [''a'', ''b''], t_val = - 1, q_vals = [Scalar 1, Scalar 2],
         v_vals = [Scalar 0, Scalar 0], xi_vals = [Scalar 0, Scalar 0]\<rparr> \<and>
   (0 :: real) \<le> 4 \<and> (0 :: real) \<le> 2 * 0 * 4 \<and>
   valid_schedule (length [Scalar 1, Scalar 2]) [Compute 1, Assign 1, Compute 0, Assign 0] \<and>
   (\<exists>b' outs.
      run_sample
       (\<lambda>qs i j. 5 * (case qs of [a, b] \<Rightarrow> (if i = 0 then sum_list (elems b)
                                                else sum_list (elems a)) | _ \<Rightarrow> 0))
       (\<lambda>i op j. 1) [Compute 1, Assign 1, Compute 0, Assign 0]
       \<lparr>alg = SGNHT 4 0 1, latent_k = [''a'', ''b''], t_val = - 1, q_vals = [Scalar 1, Scalar 2],
         v_vals = [Scalar 0, Scalar 0], xi_vals = [Scalar 0, Scalar 0]\<rparr> = (b', Inr outs) \<and>
      t_val b' = 0 \<and> q_vals b' = [Scalar 483, Scalar 24] \<and> v_vals b' = [Scalar 482, Scalar 22] \<and>
      xi_vals b' = [Scalar 232320, Scalar 480] \<and>
      outs = [(''a'', Scalar 483, Mean_k_xi (Scalar 232324) (Scalar 232320)),
              (''b'', Scalar 24, Mean_k_xi (Scalar 484) (Scalar 480))]) \<and>
   t_val \<lparr>alg = SGNHT 4 0 1, latent_k = [''a'', ''b''], t_val = - 1, q_vals = [Scalar 1, Scalar 2],
         v_vals = [Scalar 0, Scalar 0], xi_vals = [Scalar 0, Scalar 0]\<rparr> = - 1 \<and>
   t_val (run_steps
        (\<lambda>qs i j. 5 * (case qs of [a, b] \<Rightarrow> (if i = 0 then sum_list (elems b)
                                                 else sum_list (elems a)) | _ \<Rightarrow> 0))
        [(\<lambda>i op j. 1, [Compute 1, Assign 1, Compute 0, Assign 0])]
        \<lparr>alg = SGNHT 4 0 1, latent_k = [''a'', ''b''], t_val = - 1, q_vals = [Scalar 1, Scalar 2],
          v_vals = [Scalar 0, Scalar 0], xi_vals = [Scalar 0, Scalar 0]\<rparr>) + 1 \<noteq> 0"
proof -
  let ?b = "\<lparr>alg = SGNHT 4 0 1, latent_k = [''a'', ''b''], t_val = - 1, q_vals = [Scalar 1, Scalar 2],
         v_vals = [Scalar 0, Scalar 0], xi_vals = [Scalar 0, Scalar 0]\<rparr>"
  let ?dl = "\<lambda>qs i j. 5 * (case qs of [a, b] \<Rightarrow> (if i = (0 :: nat) then sum_list (elems b)
                                                else sum_list (elems a)) | _ \<Rightarrow> 0)"
  let ?d = "(\<lambda>i op j. 1) :: draws"
  let ?sch = "[Compute 1, Assign 1, Compute 0, Assign 0]"
  let ?b' = "\<lparr>alg = SGNHT 4 0 1, latent_k = [''a'', ''b''], t_val = 0,
         q_vals = [Scalar 483, Scalar 24], v_vals = [Scalar 482, Scalar 22],
         xi_vals = [Scalar 232320, Scalar 480]\<rparr>"
  let ?outs = "[(''a'', Scalar 483, Mean_k_xi (Scalar 232324) (Scalar 232320)),
                (''b'', Scalar 24, Mean_k_xi (Scalar 484) (Scalar 480))]"
  have h1: "alg ?b = SGNHT 4 0 1" by simp
  have h2: "aligned ?b" by (simp add: aligned_def)
  have h3: "(0 :: real) \<le> 4" by simp
  have h4: "(0 :: real) \<le> 2 * 0 * 4" by simp
  have h5: "valid_schedule (length (q_vals ?b)) ?sch"
    by (simp add: valid_schedule_def)
  have tb: "t_val ?b = - 1" by simp
  have run: "run_sample ?dl ?d ?sch ?b = (?b', Inr ?outs)"
    by (simp add: run_sample_def evaluate_def SGNHT_update_def SGNHT_update_single_def
        tf_gradients_def random_normal_def tf_add_def tf_mul_def tf_sub_def tf_sqrt_def
        tf_square_def reduce_mean_def assign_def results_def fetched_def Let_def)
  note th = SGNHT_step [OF h1 h2 h3 h4 h5, of ?dl ?d]
  from th have "t_val ?b = - 1 \<longrightarrow>
      (\<forall>ds. t_val (run_steps ?dl ds ?b) + 1 = 0 \<longleftrightarrow> 2 ^ 32 dvd length ds)"
    by (rule conjunct2)
  with tb have "\<forall>ds. t_val (run_steps ?dl ds ?b) + 1 = 0 \<longleftrightarrow> 2 ^ 32 dvd length ds"
    by blast
  then have "t_val (run_steps ?dl [(?d, ?sch)] ?b) + 1 = 0
      \<longleftrightarrow> 2 ^ 32 dvd length [(?d, ?sch)]"
    by (rule spec)
  then have later: "t_val (run_steps ?dl [(?d, ?sch)] ?b) + 1 \<noteq> 0"
    by simp
  from th obtain b' outs where
    r: "run_sample ?dl ?d ?sch ?b = (b', Inr outs)" and t: "t_val b' = t_val ?b + 1"
    by blast
  from r run have "q_vals b' = [Scalar 483, Scalar 24]" "v_vals b' = [Scalar 482, Scalar 22]"
    "xi_vals b' = [Scalar 232320, Scalar 480]" "outs = ?outs"
    by auto
  with r t have "\<exists>b' outs. run_sample ?dl ?d ?sch ?b = (b', Inr outs) \<and>
      t_val b' = 0 \<and> q_vals b' = [Scalar 483, Scalar 24] \<and> v_vals b' = [Scalar 482, Scalar 22] \<and>
      xi_vals b' = [Scalar 232320, Scalar 480] \<and> outs = ?outs"
    by auto
  with h1 h2 h3 h4 h5 tb later show ?thesis by simp
qed

text \<open>
  C7, as stated, fails after \<open>2 ^ 32\<close> runs: the incremented counter of the next run is 0
  again, and the operation of that run draws the momentum afresh instead of using the
  current velocity. With current velocity 5 and a draw of 1 the new velocity is 1, where
  the run before it, with counter 1, makes it 5.
\<close>

theorem SGNHT_wrap_counterexample:
  "length (replicate (2 ^ 32) ((\<lambda>i op j. 1) :: draws, [Compute 0, Assign 0])) = 2 ^ 32 \<and>
   t_val (run_steps (\<lambda>qs i j. 0) (replicate (2 ^ 32) (\<lambda>i op j. 1, [Compute 0, Assign 0]))
            \<lparr>alg = SGNHT 1 0 1, latent_k = [''q''], t_val = - 1, q_vals = [Scalar 0],
              v_vals = [Scalar 0], xi_vals = [Scalar 0]\<rparr>) + 1 = 0 \<and>
   fst (SGNHT_update_single 1 0 1
          (t_val (run_steps (\<lambda>qs i j. 0) (replicate (2 ^ 32) (\<lambda>i op j. 1, [Compute 0, Assign 0]))
                    \<lparr>alg = SGNHT 1 0 1, latent_k = [''q''], t_val = - 1, q_vals = [Scalar 0],
                      v_vals = [Scalar 0], xi_vals = [Scalar 0]\<rparr>) + 1)
          (\<lambda>op j. 1) (Scalar 0) (Scalar 5) (Scalar 0) (Scalar 0))
     = Assign_q_v_xi (Scalar 1) (Scalar 1) (Scalar 0) \<and>
   fst (SGNHT_update_single 1 0 1 1 (\<lambda>op j. 1) (Scalar 0) (Scalar 5) (Scalar 0) (Scalar 0))
     = Assign_q_v_xi (Scalar 5) (Scalar 5) (Scalar 24)"
proof -
  let ?b = "\<lparr>alg = SGNHT 1 0 1, latent_k = [''q''], t_val = - 1, q_vals = [Scalar 0],
              v_vals = [Scalar 0], xi_vals = [Scalar 0]\<rparr>"
  let ?ds = "replicate (2 ^ 32) ((\<lambda>i op j. 1) :: draws, [Compute 0, Assign 0])"
  have t: "t_val (run_steps (\<lambda>qs i j. 0) ?ds ?b) + 1 = 0"
    by (simp add: t_val_run_steps)
  have "fst (SGNHT_update_single 1 0 1 0 (\<lambda>op j. 1) (Scalar 0) (Scalar 5) (Scalar 0) (Scalar 0))
     = Assign_q_v_xi (Scalar 1) (Scalar 1) (Scalar 0)"
    by (simp add: SGNHT_update_single_def random_normal_def tf_add_def tf_mul_def tf_sub_def
        tf_sqrt_def tf_square_def reduce_mean_def Let_def)
  moreover have
    "fst (SGNHT_update_single 1 0 1 1 (\<lambda>op j. 1) (Scalar 0) (Scalar 5) (Scalar 0) (Scalar 0))
     = Assign_q_v_xi (Scalar 5) (Scalar 5) (Scalar 24)"
    by (simp add: SGNHT_update_single_def random_normal_def tf_add_def tf_mul_def tf_sub_def
        tf_sqrt_def tf_square_def reduce_mean_def Let_def)
  ultimately show ?thesis unfolding t by simp
qed

subsection \<open>What binding creates\<close>

lemma check_variables_Inr:
  "check_variables ks vs = Inr qs \<Longrightarrow> map Variable qs = vs"
  by (induction ks vs arbitrary: qs rule: check_variables.induct)
     (auto split: sum.splits)

lemma cls_define_variables [simp]: "cls (define_variables s qs) = cls s"
  by (simp add: define_variables_def SGMCMC_define_variables_def SGLD_define_variables_def
      SGHMC_define_variables_def SGNHT_define_variables_def split: option.splits algorithm.splits)

lemma self_t_define_variables [simp]: "self_t (define_variables s qs) = self_t s"
  by (simp add: define_variables_def SGMCMC_define_variables_def SGLD_define_variables_def
      SGHMC_define_variables_def SGNHT_define_variables_def split: option.splits algorithm.splits)

lemma sample_success:
  assumes "sample s meta_model observed latent = (s', Inr b)"
  shows "\<exists>a. cls s = Some a \<and> alg b = a \<and> t_val b = self_t s \<and>
           latent_k b = map fst latent \<and> map Variable (q_vals b) = map snd latent \<and>
           s' = define_variables
                  (s\<lparr>self_meta_model := (case meta_model of LogJointFn \<Rightarrow> None | MetaModel \<Rightarrow> Some MetaModel),
                     self_observed := Some observed, self_latent := Some latent\<rparr>) (q_vals b) \<and>
           v_vals b = the_list (self_vs s') \<and> xi_vals b = the_list (self_xis s')"
proof -
  let ?s1 = "s\<lparr>self_meta_model := (case meta_model of LogJointFn \<Rightarrow> None | MetaModel \<Rightarrow> Some MetaModel),
                self_observed := Some observed, self_latent := Some latent\<rparr>"
  from assms have ne: "latent \<noteq> []"
    by (auto simp: sample_def zip_star_def)
  with assms obtain qs where c: "check_variables (map fst latent) (map snd latent) = Inr qs"
    by (cases "check_variables (map fst latent) (map snd latent)")
       (auto simp: sample_def zip_star_def)
  from assms ne c obtain a where a: "cls s = Some a"
    by (cases "cls s") (auto simp: sample_def zip_star_def SGMCMC_update_def Let_def)
  from assms ne c a have
    "s' = define_variables ?s1 qs"
    "b = \<lparr>alg = a, latent_k = map fst latent, t_val = self_t s, q_vals = qs,
          v_vals = the_list (self_vs s'), xi_vals = the_list (self_xis s')\<rparr>"
    by (auto simp: sample_def zip_star_def Let_def)
  with a check_variables_Inr [OF c] show ?thesis by simp
qed

lemma sample_aligned:
  assumes "sample s meta_model observed latent = (s', Inr b)"
    and "\<forall>x. Variable x \<in> snd ` set latent \<longrightarrow> wf_tensor x"
  shows "aligned b"
proof -
  from sample_success [OF assms(1)] obtain a where
    a: "cls s = Some a" "alg b = a" and k: "latent_k b = map fst latent"
    and q: "map Variable (q_vals b) = map snd latent"
    and s': "s' = define_variables
                  (s\<lparr>self_meta_model := (case meta_model of LogJointFn \<Rightarrow> None | MetaModel \<Rightarrow> Some MetaModel),
                     self_observed := Some observed, self_latent := Some latent\<rparr>) (q_vals b)"
    and v: "v_vals b = the_list (self_vs s')" "xi_vals b = the_list (self_xis s')"
    by blast
  from q have len: "length (q_vals b) = length latent"
    using length_map [of Variable "q_vals b"] by simp
  have wf: "list_all wf_tensor (q_vals b)"
    unfolding list_all_iff
  proof
    fix x assume "x \<in> set (q_vals b)"
    then have "Variable x \<in> set (map Variable (q_vals b))" by simp
    with q assms(2) show "wf_tensor x" by auto
  qed
  then have z: "list_all2 (\<lambda>q v. shape v = shape q \<and> wf_tensor v) (q_vals b) (map zeros_like (q_vals b))"
    by (simp add: list_all2_conv_all_nth list_all_length zeros_like_def)
  have sc: "list_all2 (\<lambda>q xi. is_scalar xi) (q_vals b) (map (\<lambda>q. Scalar c) (q_vals b))" for c
    by (simp add: list_all2_conv_all_nth)
  show ?thesis
  proof (cases a)
    case (SGLD lr)
    with a wf k len show ?thesis by (simp add: aligned_def)
  next
    case (SGHMC lr alpha beta n)
    with a s' v have "v_vals b = map zeros_like (q_vals b)"
      by (simp add: define_variables_def SGHMC_define_variables_def the_list_def)
    with SGHMC a wf k len z show ?thesis by (simp add: aligned_def)
  next
    case (SGNHT lr alpha tune_rate)
    with a s' v have "v_vals b = map zeros_like (q_vals b)"
      "xi_vals b = map (\<lambda>q. Scalar alpha) (q_vals b)"
      by (simp_all add: define_variables_def SGNHT_define_variables_def the_list_def)
    with SGNHT a wf k len z sc [of alpha] show ?thesis by (simp add: aligned_def)
  qed
qed

text \<open>
  C4, as the code has it. Binding an SGNHT sampler creates for every latent a velocity
  of zeros with the latent's shape, and a thermostat variable holding \<open>alpha\<close> with the
  shape of \<open>alpha\<close> itself, a scalar: it is not expanded to the latent's shape (the
  products with it broadcast when the update runs).
\<close>

theorem SGNHT_bind_auxiliary_state:
  assumes "cls s = Some (SGNHT lr alpha tune_rate)"
    and "sample s meta_model observed latent = (s', Inr b)"
  shows "map Variable (q_vals b) = map snd latent \<and>
         self_vs s' = Some (map zeros_like (q_vals b)) \<and>
         self_xis s' = Some (map (\<lambda>q. Scalar alpha) (q_vals b)) \<and>
         v_vals b = map zeros_like (q_vals b) \<and>
         xi_vals b = map (\<lambda>q. Scalar alpha) (q_vals b) \<and>
         (\<forall>i<length (q_vals b).
            shape (v_vals b ! i) = shape (q_vals b ! i) \<and>
            elems (v_vals b ! i) = map (\<lambda>x. 0) (elems (q_vals b ! i)) \<and>
            xi_vals b ! i = Scalar alpha \<and> shape (xi_vals b ! i) = [])"
proof -
  from sample_success [OF assms(2)] assms(1) have
    q: "map Variable (q_vals b) = map snd latent"
    and s': "s' = define_variables
                  (s\<lparr>self_meta_model := (case meta_model of LogJointFn \<Rightarrow> None | MetaModel \<Rightarrow> Some MetaModel),
                     self_observed := Some observed, self_latent := Some latent\<rparr>) (q_vals b)"
    and v: "v_vals b = the_list (self_vs s')" "xi_vals b = the_list (self_xis s')"
    by auto
  from s' assms(1) have aux: "self_vs s' = Some (map zeros_like (q_vals b))"
    "self_xis s' = Some (map (\<lambda>q. Scalar alpha) (q_vals b))"
    by (simp_all add: define_variables_def SGNHT_define_variables_def)
  with v have vals: "v_vals b = map zeros_like (q_vals b)"
    "xi_vals b = map (\<lambda>q. Scalar alpha) (q_vals b)"
    by (simp_all add: the_list_def)
  have "shape (v_vals b ! i) = shape (q_vals b ! i) \<and>
        elems (v_vals b ! i) = map (\<lambda>x. 0) (elems (q_vals b ! i)) \<and>
        xi_vals b ! i = Scalar alpha \<and> shape (xi_vals b ! i) = []"
    if "i < length (q_vals b)" for i
    using that by (simp add: vals zeros_like_def)
  with q aux vals show ?thesis by blast
qed

theorem SGNHT_bind_auxiliary_state_witness:
  "cls (SGNHT_init (1/10) 0 1) = Some (SGNHT (1/10) 0 1) \<and>
   sample (SGNHT_init (1/10) 0 1) LogJointFn [] [(''w'', Variable (Array [2] [5, 7]))]
     = (SGNHT_init (1/10) 0 1
          \<lparr>self_observed := Some [], self_latent := Some [(''w'', Variable (Array [2] [5, 7]))],
           self_vs := Some [Array [2] [0, 0]], self_xis := Some [Scalar 0]\<rparr>,
        Inr \<lparr>alg = SGNHT (1/10) 0 1, latent_k = [''w''], t_val = - 1, q_vals = [Array [2] [5, 7]],
             v_vals = [Array [2] [0, 0]], xi_vals = [Scalar 0]\<rparr>) \<and>
   shape (Array [2] [0, 0]) = shape (Array [2] [5, 7]) \<and> shape (Scalar 0) = []"
proof -
  let ?s = "SGNHT_init (1/10) 0 1"
  let ?l = "[(''w'', Variable (Array [2] [5, 7]))]"
  let ?s' = "?s\<lparr>self_observed := Some [], self_latent := Some ?l,
                self_vs := Some [Array [2] [0, 0]], self_xis := Some [Scalar 0]\<rparr>"
  let ?b = "\<lparr>alg = SGNHT (1/10) 0 1, latent_k = [''w''], t_val = - 1, q_vals = [Array [2] [5, 7]],
             v_vals = [Array [2] [0, 0]], xi_vals = [Scalar 0]\<rparr>"
  have h1: "cls ?s = Some (SGNHT (1/10) 0 1)"
    by (simp add: SGNHT_init_def SGMCMC_init_def)
  have h2: "sample ?s LogJointFn [] ?l = (?s', Inr ?b)"
    by (simp add: sample_def zip_star_def SGNHT_init_def SGMCMC_init_def Let_def
        define_variables_def SGNHT_define_variables_def zeros_like_def the_list_def)
  from SGNHT_bind_auxiliary_state [OF h1 h2]
  have "\<forall>i<length (q_vals ?b).
          shape (v_vals ?b ! i) = shape (q_vals ?b ! i) \<and>
          elems (v_vals ?b ! i) = map (\<lambda>x. 0) (elems (q_vals ?b ! i)) \<and>
          xi_vals ?b ! i = Scalar 0 \<and> shape (xi_vals ?b ! i) = []"
    by blast
  then have "shape (Array [2] [0, 0]) = shape (Array [2] [5, 7]) \<and> shape (Scalar 0) = []"
    by simp
  with h1 h2 show ?thesis by blast
qed

text \<open>
  C4, as stated, fails for a latent that is not a scalar: the thermostat variable of a
  latent of shape \<open>[2]\<close> has shape \<open>[]\<close>.
\<close>

theorem SGNHT_xi_shape_counterexample:
  "self_xis (fst (sample (SGNHT_init (1/10) 0 1) LogJointFn []
                    [(''w'', Variable (Array [2] [5, 7]))])) = Some [Scalar 0] \<and>
   shape (Scalar 0) \<noteq> shape (Array [2] [5, 7])"
  by (simp add: sample_def zip_star_def SGNHT_init_def SGMCMC_init_def Let_def
      define_variables_def SGNHT_define_variables_def)

subsection \<open>The shared counter\<close>

lemma sint_counter:
  assumes "k \<le> 2 ^ 31"
  shows "sint (of_nat k - 1 :: 32 word) = int k - 1"
proof -
  have "(of_nat k - 1 :: 32 word) = word_of_int (int k - 1)" by simp
  then have "sint (of_nat k - 1 :: 32 word) = signed_take_bit 31 (int k - 1)"
    by (simp only: signed_of_int) simp
  also have "\<dots> = int k - 1"
    using assms by (intro signed_take_bit_int_eq_self) simp_all
  finally show ?thesis .
qed

text \<open>
  C5, as the code has it. Every constructor sets the counter to \<open>-1\<close>, and binding
  leaves it there. In SGHMC and SGNHT every run of the update operation increments the
  counter once, before the updates of the latents, in whatever order the executor takes
  them and whether or not the run then fails:
  after \<open>K\<close> runs it is \<open>K - 1\<close> as an \<^verbatim>\<open>int32\<close> (exactly so up to \<open>2 ^ 31\<close> runs),
  and the next run computes the update of every latent with the one incremented value
  \<open>K\<close>. SGLD never touches the counter: it stays \<open>-1\<close>.
\<close>

theorem step_counter:
  assumes "sample s meta_model observed latent = (s', Inr b)" and "self_t s = - 1"
  shows "self_t (SGLD_init l1) = - 1 \<and> self_t (SGHMC_init l2 a2 b2 n2) = - 1 \<and>
         self_t (SGNHT_init l3 a3 r3) = - 1 \<and> t_val b = - 1 \<and>
         (case alg b of
            SGLD lr \<Rightarrow> t_val (run_steps dl ds b) = - 1
          | SGHMC lr alpha beta n \<Rightarrow>
              t_val (run_steps dl ds b) = of_nat (length ds) - 1 \<and>
              (length ds \<le> 2 ^ 31 \<longrightarrow> sint (t_val (run_steps dl ds b)) = int (length ds) - 1) \<and>
              SGHMC_update lr alpha beta n (t_val (run_steps dl ds b)) d qs vs gf =
                (of_nat (length ds),
                 map (\<lambda>(i, q, v, g).
                        SGHMC_update_single lr alpha beta n (of_nat (length ds)) (d i) q v g)
                   (zip [0..<length qs] (zip qs (zip vs (gf qs)))))
          | SGNHT lr alpha tune_rate \<Rightarrow>
              t_val (run_steps dl ds b) = of_nat (length ds) - 1 \<and>
              (length ds \<le> 2 ^ 31 \<longrightarrow> sint (t_val (run_steps dl ds b)) = int (length ds) - 1) \<and>
              SGNHT_update lr alpha tune_rate (t_val (run_steps dl ds b)) d qs vs xis gf =
                (of_nat (length ds),
                 map (\<lambda>(i, q, v, xi, g).
                        SGNHT_update_single lr alpha tune_rate (of_nat (length ds)) (d i) q v xi g)
                   (zip [0..<length qs] (zip qs (zip vs (zip xis (gf qs)))))))"
proof -
  have init: "self_t (SGLD_init l1) = - 1" "self_t (SGHMC_init l2 a2 b2 n2) = - 1"
    "self_t (SGNHT_init l3 a3 r3) = - 1"
    by (simp_all add: SGLD_init_def SGHMC_init_def SGNHT_init_def SGMCMC_init_def)
  from sample_success [OF assms(1)] assms(2) have t0: "t_val b = - 1" by auto
  have counter: "(case alg b of
            SGLD lr \<Rightarrow> t_val (run_steps dl ds b) = - 1
          | SGHMC lr alpha beta n \<Rightarrow>
              t_val (run_steps dl ds b) = of_nat (length ds) - 1 \<and>
              (length ds \<le> 2 ^ 31 \<longrightarrow> sint (t_val (run_steps dl ds b)) = int (length ds) - 1) \<and>
              SGHMC_update lr alpha beta n (t_val (run_steps dl ds b)) d qs vs gf =
                (of_nat (length ds),
                 map (\<lambda>(i, q, v, g).
                        SGHMC_update_single lr alpha beta n (of_nat (length ds)) (d i) q v g)
                   (zip [0..<length qs] (zip qs (zip vs (gf qs)))))
          | SGNHT lr alpha tune_rate \<Rightarrow>
              t_val (run_steps dl ds b) = of_nat (length ds) - 1 \<and>
              (length ds \<le> 2 ^ 31 \<longrightarrow> sint (t_val (run_steps dl ds b)) = int (length ds) - 1) \<and>
              SGNHT_update lr alpha tune_rate (t_val (run_steps dl ds b)) d qs vs xis gf =
                (of_nat (length ds),
                 map (\<lambda>(i, q, v, xi, g).
                        SGNHT_update_single lr alpha tune_rate (of_nat (length ds)) (d i) q v xi g)
                   (zip [0..<length qs] (zip qs (zip vs (zip xis (gf qs)))))))"
  proof (cases "alg b")
    case (SGLD lr)
    then show ?thesis by (simp add: t_val_run_steps t0)
  next
    case (SGHMC lr alpha beta n)
    then have t: "t_val (run_steps dl ds b) = of_nat (length ds) - 1"
      by (simp add: t_val_run_steps t0)
    with SGHMC sint_counter [of "length ds"] show ?thesis
      by (simp add: SGHMC_update_def Let_def)
  next
    case (SGNHT lr alpha tune_rate)
    then have t: "t_val (run_steps dl ds b) = of_nat (length ds) - 1"
      by (simp add: t_val_run_steps t0)
    with SGNHT sint_counter [of "length ds"] show ?thesis
      by (simp add: SGNHT_update_def Let_def)
  qed
  from init t0 counter show ?thesis by blast
qed

theorem step_counter_witness:
  "sample (SGHMC_init 1 (1/2) 0 (Some 2)) LogJointFn [] [(''q'', Variable (Scalar 3))]
     = (SGHMC_init 1 (1/2) 0 (Some 2)
          \<lparr>self_observed := Some [], self_latent := Some [(''q'', Variable (Scalar 3))],
           self_vs := Some [Scalar 0]\<rparr>,
        Inr \<lparr>alg = SGHMC 1 (1/2) 0 2, latent_k = [''q''], t_val = - 1, q_vals = [Scalar 3],
             v_vals = [Scalar 0], xi_vals = []\<rparr>) \<and>
   self_t (SGHMC_init 1 (1/2) 0 (Some 2)) = - 1 \<and>
   t_val (run_steps (\<lambda>qs i j. 2)
            [(\<lambda>i op j. 1, [Compute 0, Assign 0]), (\<lambda>i op j. 1, [Compute 0, Assign 0])]
            \<lparr>alg = SGHMC 1 (1/2) 0 2, latent_k = [''q''], t_val = - 1, q_vals = [Scalar 3],
              v_vals = [Scalar 0], xi_vals = []\<rparr>) = 1 \<and>
   sint (t_val (run_steps (\<lambda>qs i j. 2)
            [(\<lambda>i op j. 1, [Compute 0, Assign 0]), (\<lambda>i op j. 1, [Compute 0, Assign 0])]
            \<lparr>alg = SGHMC 1 (1/2) 0 2, latent_k = [''q''], t_val = - 1, q_vals = [Scalar 3],
              v_vals = [Scalar 0], xi_vals = []\<rparr>)) = 1"
proof -
  let ?s = "SGHMC_init 1 (1/2) 0 (Some 2)"
  let ?l = "[(''q'', Variable (Scalar 3))]"
  let ?s' = "?s\<lparr>self_observed := Some [], self_latent := Some ?l, self_vs := Some [Scalar 0]\<rparr>"
  let ?b = "\<lparr>alg = SGHMC 1 (1/2) 0 2, latent_k = [''q''], t_val = - 1, q_vals = [Scalar 3],
             v_vals = [Scalar 0], xi_vals = []\<rparr>"
  let ?ds = "[(\<lambda>i op j. 1, [Compute 0, Assign 0]), (\<lambda>i op j. 1, [Compute 0, Assign 0])]
               :: (draws \<times> sched_op list) list"
  have h1: "sample ?s LogJointFn [] ?l = (?s', Inr ?b)"
    by (simp add: sample_def zip_star_def SGHMC_init_def SGMCMC_init_def Let_def
        define_variables_def SGHMC_define_variables_def zeros_like_def the_list_def)
  have h2: "self_t ?s = - 1"
    by (simp add: SGHMC_init_def SGMCMC_init_def)
  from step_counter [OF h1 h2, where dl = "\<lambda>qs i j. 2" and ds = ?ds]
  have "t_val (run_steps (\<lambda>qs i j. 2) ?ds ?b) = of_nat (length ?ds) - 1 \<and>
        (length ?ds \<le> 2 ^ 31 \<longrightarrow>
           sint (t_val (run_steps (\<lambda>qs i j. 2) ?ds ?b)) = int (length ?ds) - 1)"
    by simp
  then have "t_val (run_steps (\<lambda>qs i j. 2) ?ds ?b) = 1"
    "sint (t_val (run_steps (\<lambda>qs i j. 2) ?ds ?b)) = 1"
    by simp_all
  with h1 h2 show ?thesis by blast
qed

text \<open>
  C5, as stated, fails for SGLD: after one run of its update operation the counter is
  still \<open>-1\<close>, not \<open>0\<close>.
\<close>

theorem SGLD_counter_counterexample:
  "snd (sample (SGLD_init (1/10)) LogJointFn [] [(''q'', Variable (Scalar 0))])
     = Inr \<lparr>alg = SGLD (1/10), latent_k = [''q''], t_val = - 1, q_vals = [Scalar 0],
             v_vals = [], xi_vals = []\<rparr> \<and>
   t_val (run_steps (\<lambda>qs i j. 0) [(\<lambda>i op j. 0, [Compute 0, Assign 0])]
            \<lparr>alg = SGLD (1/10), latent_k = [''q''], t_val = - 1, q_vals = [Scalar 0],
              v_vals = [], xi_vals = []\<rparr>) = - 1 \<and>
   (- 1 :: 32 word) \<noteq> of_nat 1 - 1"
  by (simp add: sample_def zip_star_def SGLD_init_def SGMCMC_init_def Let_def
      define_variables_def SGLD_define_variables_def the_list_def t_val_run_sample)


subsection \<open>Reads of one latent's update against assignments of another\<close>

text \<open>
  C9. The update operation that \<^verbatim>\<open>sample\<close> returns is one \<^verbatim>\<open>tf.group\<close> of the per-latent
  operations, but a latent's new value is not always computed from the values that all
  latents had before the run. With SGLD of learning rate \<open>4\<close> bound to two scalar latents
  \<open>a = 1\<close> and \<open>b = 2\<close>, the gradient of the log joint \<open>5 * a * b\<close> and every draw \<open>1\<close>, the
  values before the run give \<open>a = 23\<close> and \<open>b = 14\<close>, and the order that computes both
  updates before either assignment returns them. The order that assigns \<open>a\<close> before the
  update of \<open>b\<close> is computed is a run of the same graph and returns \<open>b = 234\<close>: the gradient
  for \<open>b\<close> has read the new \<open>a\<close>. The order that takes \<open>b\<close> first returns \<open>a = 143\<close>. The
  control dependencies of SGHMC (lines 142-145) order the assignments of a latent after
  that latent's own new values only, and leave the same orders: in the first run of SGHMC
  with learning rate \<open>4\<close> and friction \<open>1/2\<close> on the same latents, the values before the
  run give \<open>a = 44\<close> and \<open>b = 25\<close>, and the order that assigns \<open>a\<close> first returns
  \<open>b = 885\<close>.
\<close>

theorem update_reads_assigned_latent:
  "valid_schedule 2 [Compute 0, Compute 1, Assign 0, Assign 1] \<and>
   valid_schedule 2 [Compute 0, Assign 0, Compute 1, Assign 1] \<and>
   valid_schedule 2 [Compute 1, Assign 1, Compute 0, Assign 0] \<and>
   q_vals (fst (run_sample (\<lambda>qs i j. 5 * (case qs of [a, b] \<Rightarrow> (if i = 0 then sum_list (elems b)
                                                          else sum_list (elems a)) | _ \<Rightarrow> 0))
                  (\<lambda>i op j. 1) [Compute 0, Compute 1, Assign 0, Assign 1]
                  \<lparr>alg = SGLD 4, latent_k = [''a'', ''b''], t_val = - 1,
                    q_vals = [Scalar 1, Scalar 2], v_vals = [], xi_vals = []\<rparr>))
     = [Scalar 23, Scalar 14] \<and>
   q_vals (fst (run_sample (\<lambda>qs i j. 5 * (case qs of [a, b] \<Rightarrow> (if i = 0 then sum_list (elems b)
                                                          else sum_list (elems a)) | _ \<Rightarrow> 0))
                  (\<lambda>i op j. 1) [Compute 0, Assign 0, Compute 1, Assign 1]
                  \<lparr>alg = SGLD 4, latent_k = [''a'', ''b''], t_val = - 1,
                    q_vals = [Scalar 1, Scalar 2], v_vals = [], xi_vals = []\<rparr>))
     = [Scalar 23, Scalar 234] \<and>
   q_vals (fst (run_sample (\<lambda>qs i j. 5 * (case qs of [a, b] \<Rightarrow> (if i = 0 then sum_list (elems b)
                                                          else sum_list (elems a)) | _ \<Rightarrow> 0))
                  (\<lambda>i op j. 1) [Compute 1, Assign 1, Compute 0, Assign 0]
                  \<lparr>alg = SGLD 4, latent_k = [''a'', ''b''], t_val = - 1,
                    q_vals = [Scalar 1, Scalar 2], v_vals = [], xi_vals = []\<rparr>))
     = [Scalar 143, Scalar 14] \<and>
   q_vals (fst (run_sample (\<lambda>qs i j. 5 * (case qs of [a, b] \<Rightarrow> (if i = 0 then sum_list (elems b)
                                                          else sum_list (elems a)) | _ \<Rightarrow> 0))
                  (\<lambda>i op j. 1) [Compute 0, Compute 1, Assign 0, Assign 1]
                  \<lparr>alg = SGHMC 4 (1/2) 0 20, latent_k = [''a'', ''b''], t_val = - 1,
                    q_vals = [Scalar 1, Scalar 2], v_vals = [Scalar 0, Scalar 0], xi_vals = []\<rparr>))
     = [Scalar 44, Scalar 25] \<and>
   q_vals (fst (run_sample (\<lambda>qs i j. 5 * (case qs of [a, b] \<Rightarrow> (if i = 0 then sum_list (elems b)
                                                          else sum_list (elems a)) | _ \<Rightarrow> 0))
                  (\<lambda>i op j. 1) [Compute 0, Assign 0, Compute 1, Assign 1]
                  \<lparr>alg = SGHMC 4 (1/2) 0 20, latent_k = [''a'', ''b''], t_val = - 1,
                    q_vals = [Scalar 1, Scalar 2], v_vals = [Scalar 0, Scalar 0], xi_vals = []\<rparr>))
     = [Scalar 44, Scalar 885]"
proof -
  have two: "[0..<2] = [0, Suc 0]" by (simp add: upt_rec)
  have "valid_schedule 2 [Compute 0, Compute 1, Assign 0, Assign 1]"
    "valid_schedule 2 [Compute 0, Assign 0, Compute 1, Assign 1]"
    "valid_schedule 2 [Compute 1, Assign 1, Compute 0, Assign 0]"
    by (simp_all add: valid_schedule_def two)
  then show ?thesis
    by (simp add: run_sample_def evaluate_def SGLD_update_def
        SGLD_update_single_def SGHMC_update_def SGHMC_update_single_def tf_gradients_def
        random_normal_def tf_add_def tf_mul_def tf_sub_def tf_sqrt_def tf_square_def
        reduce_mean_def tf_mod_def assign_def results_def fetched_def Let_def)
qed
end
